theory Spec2Isabelle
  imports Main "HOL-Library.Sublist"
begin

section \<open>Go strings\<close>

text \<open>
  A Go string is a sequence of bytes; \<open>len\<close> and slicing count bytes. The model uses
  \<^typ>\<open>string\<close> (a list of 8-bit characters), so a character outside ASCII is the several
  bytes of its UTF-8 encoding, as in the compiled program.
\<close>

definition HasPrefix :: "string \<Rightarrow> string \<Rightarrow> bool" where
  "HasPrefix s p = prefix p s"

definition HasSuffix :: "string \<Rightarrow> string \<Rightarrow> bool" where
  "HasSuffix s p = suffix p s"

definition TrimPrefix :: "string \<Rightarrow> string \<Rightarrow> string" where
  "TrimPrefix s p = (if prefix p s then drop (length p) s else s)"

definition TrimSuffix :: "string \<Rightarrow> string \<Rightarrow> string" where
  "TrimSuffix s p = (if suffix p s then take (length s - length p) s else s)"

fun Contains :: "string \<Rightarrow> string \<Rightarrow> bool" where
  "Contains [] sub = (sub = [])"
| "Contains (c # cs) sub = (prefix sub (c # cs) \<or> Contains cs sub)"

text \<open>
  \<open>strings.Split(s, sep)\<close> and \<open>strings.ReplaceAll(s, old, new)\<close> scan from the left for
  non-overlapping occurrences. The source calls both with constant, non-empty separators
  only; with an empty one the model returns its input unsplit and unreplaced, a case no
  call reaches.
\<close>

function Split_from :: "string \<Rightarrow> string \<Rightarrow> string \<Rightarrow> string list" where
  "Split_from sep acc [] = [rev acc]"
| "Split_from sep acc (c # cs) =
     (if sep \<noteq> [] \<and> prefix sep (c # cs)
      then rev acc # Split_from sep [] (drop (length sep) (c # cs))
      else Split_from sep (c # acc) cs)"
  by pat_completeness auto
termination
  by (relation "measure (\<lambda>(sep, acc, s). length s)") (auto simp: neq_Nil_conv)

definition Split :: "string \<Rightarrow> string \<Rightarrow> string list" where
  "Split s sep = Split_from sep [] s"

function ReplaceAll :: "string \<Rightarrow> string \<Rightarrow> string \<Rightarrow> string" where
  "ReplaceAll [] old new = []"
| "ReplaceAll (c # cs) old new =
     (if old \<noteq> [] \<and> prefix old (c # cs)
      then new @ ReplaceAll (drop (length old) (c # cs)) old new
      else c # ReplaceAll cs old new)"
  by pat_completeness auto
termination
  by (relation "measure (\<lambda>(s, old, new). length s)") (auto simp: neq_Nil_conv)

text \<open>
  \<open>strings.ToLower\<close>: the ASCII letters \<open>A\<close> to \<open>Z\<close> are mapped to \<open>a\<close> to \<open>z\<close>. Bytes
  from \<open>0x80\<close> on are kept: the library also lower-cases letters outside ASCII, which the
  byte model leaves as they are.
\<close>

definition lowerByte :: "char \<Rightarrow> char" where
  "lowerByte c =
     (if 65 \<le> (of_char c :: nat) \<and> (of_char c :: nat) \<le> 90
      then char_of ((of_char c :: nat) + 32) else c)"

definition ToLower :: "string \<Rightarrow> string" where
  "ToLower s = map lowerByte s"

text \<open>The idiom \<open>if !strings.HasPrefix(x, "v") { x = "v" + x }\<close>, written inline at each
  place where the source prepares a version for comparison.\<close>

definition withV :: "string \<Rightarrow> string" where
  "withV x = (if HasPrefix x ''v'' then x else ''v'' @ x)"

section \<open>The semantic-version library\<close>

text \<open>
  The programs compare versions with \<open>semver.IsValid\<close> and \<open>semver.Compare\<close> of the Go
  module \<open>golang.org/x/mod/semver\<close>. The library is not part of the repository; the
  definitions below follow its parser and its comparison: a version is \<open>v\<close>, then
  MAJOR, optionally \<open>.MINOR\<close>, optionally \<open>.PATCH\<close> with an optional pre-release and build
  suffix; numbers have no leading zero. An invalid version is below every valid one, and
  two invalid versions are equal.
\<close>

definition isDigit :: "char \<Rightarrow> bool" where
  "isDigit c = (48 \<le> (of_char c :: nat) \<and> (of_char c :: nat) \<le> 57)"

definition isIdentChar :: "char \<Rightarrow> bool" where
  "isIdentChar c =
     ((65 \<le> (of_char c :: nat) \<and> (of_char c :: nat) \<le> 90)
      \<or> (97 \<le> (of_char c :: nat) \<and> (of_char c :: nat) \<le> 122)
      \<or> isDigit c \<or> c = CHR ''-'')"

fun bytesLess :: "string \<Rightarrow> string \<Rightarrow> bool" where
  "bytesLess [] [] = False"
| "bytesLess [] (y # ys) = True"
| "bytesLess (x # xs) [] = False"
| "bytesLess (x # xs) (y # ys) =
     ((of_char x :: nat) < of_char y \<or> (x = y \<and> bytesLess xs ys))"

record parsed =
  major :: string
  minor :: string
  patch :: string
  short :: string
  prerelease :: string
  build :: string

fun parseInt :: "string \<Rightarrow> (string \<times> string) option" where
  "parseInt [] = None"
| "parseInt (c # cs) =
     (if \<not> isDigit c then None
      else if c = CHR ''0'' \<and> takeWhile isDigit cs \<noteq> [] then None
      else Some (c # takeWhile isDigit cs, dropWhile isDigit cs))"

definition isBadNum :: "string \<Rightarrow> bool" where
  "isBadNum v = (list_all isDigit v \<and> 1 < length v \<and> hd v = CHR ''0'')"

definition isNum :: "string \<Rightarrow> bool" where
  "isNum v = list_all isDigit v"

definition nextIdent :: "string \<Rightarrow> string \<times> string" where
  "nextIdent x = (takeWhile (\<lambda>c. c \<noteq> CHR ''.'') x, dropWhile (\<lambda>c. c \<noteq> CHR ''.'') x)"

text \<open>The identifiers of a suffix: the text after its first byte, cut at every dot.\<close>

definition identifiers :: "string \<Rightarrow> string list" where
  "identifiers t = Split t ''.''"

definition parsePrerelease :: "string \<Rightarrow> (string \<times> string) option" where
  "parsePrerelease v =
     (case v of
        [] \<Rightarrow> None
      | c # cs \<Rightarrow>
          if c \<noteq> CHR ''-'' then None
          else let t = takeWhile (\<lambda>d. d \<noteq> CHR ''+'') cs in
            if list_all (\<lambda>d. isIdentChar d \<or> d = CHR ''.'') t
               \<and> list_all (\<lambda>i. i \<noteq> [] \<and> \<not> isBadNum i) (identifiers t)
            then Some (c # t, dropWhile (\<lambda>d. d \<noteq> CHR ''+'') cs)
            else None)"

definition parseBuild :: "string \<Rightarrow> (string \<times> string) option" where
  "parseBuild v =
     (case v of
        [] \<Rightarrow> None
      | c # cs \<Rightarrow>
          if c \<noteq> CHR ''+'' then None
          else if list_all (\<lambda>d. isIdentChar d \<or> d = CHR ''.'') cs
                  \<and> list_all (\<lambda>i. i \<noteq> []) (identifiers cs)
          then Some (c # cs, [])
          else None)"

definition parse :: "string \<Rightarrow> parsed option" where
  "parse v =
     (case v of
        [] \<Rightarrow> None
      | c # v1 \<Rightarrow>
          if c \<noteq> CHR ''v'' then None
          else (case parseInt v1 of
            None \<Rightarrow> None
          | Some (ma, v2) \<Rightarrow>
              if v2 = []
              then Some \<lparr>major = ma, minor = ''0'', patch = ''0'', short = ''.0.0'',
                         prerelease = [], build = []\<rparr>
              else if hd v2 \<noteq> CHR ''.'' then None
              else (case parseInt (tl v2) of
                None \<Rightarrow> None
              | Some (mi, v3) \<Rightarrow>
                  if v3 = []
                  then Some \<lparr>major = ma, minor = mi, patch = ''0'', short = ''.0'',
                             prerelease = [], build = []\<rparr>
                  else if hd v3 \<noteq> CHR ''.'' then None
                  else (case parseInt (tl v3) of
                    None \<Rightarrow> None
                  | Some (pa, v4) \<Rightarrow>
                      (case (if v4 \<noteq> [] \<and> hd v4 = CHR ''-''
                             then parsePrerelease v4 else Some ([], v4)) of
                         None \<Rightarrow> None
                       | Some (pre, v5) \<Rightarrow>
                           (case (if v5 \<noteq> [] \<and> hd v5 = CHR ''+''
                                  then parseBuild v5 else Some ([], v5)) of
                              None \<Rightarrow> None
                            | Some (bld, v6) \<Rightarrow>
                                if v6 \<noteq> [] then None
                                else Some \<lparr>major = ma, minor = mi, patch = pa,
                                           short = [], prerelease = pre,
                                           build = bld\<rparr>))))))"

definition IsValid :: "string \<Rightarrow> bool" where
  "IsValid v = (parse v \<noteq> None)"

definition compareInt :: "string \<Rightarrow> string \<Rightarrow> int" where
  "compareInt x y =
     (if x = y then 0
      else if length x < length y then - 1
      else if length x > length y then 1
      else if bytesLess x y then - 1 else 1)"

function comparePrerelease_loop :: "string \<Rightarrow> string \<Rightarrow> int" where
  "comparePrerelease_loop x y =
     (if x \<noteq> [] \<and> y \<noteq> []
      then (let (dx, x') = nextIdent (tl x); (dy, y') = nextIdent (tl y) in
        if dx \<noteq> dy
        then (if isNum dx \<noteq> isNum dy then (if isNum dx then - 1 else 1)
              else if isNum dx \<and> length dx < length dy then - 1
              else if isNum dx \<and> length dx > length dy then 1
              else if bytesLess dx dy then - 1 else 1)
        else comparePrerelease_loop x' y')
      else if x = [] then - 1 else 1)"
  by pat_completeness auto
termination
  by (relation "measure (\<lambda>(x, y). length x)")
     (auto simp: nextIdent_def neq_Nil_conv less_Suc_eq_le length_dropWhile_le)

declare comparePrerelease_loop.simps [simp del]

definition comparePrerelease :: "string \<Rightarrow> string \<Rightarrow> int" where
  "comparePrerelease x y =
     (if x = y then 0
      else if x = [] then 1
      else if y = [] then - 1
      else comparePrerelease_loop x y)"

definition Compare :: "string \<Rightarrow> string \<Rightarrow> int" where
  "Compare v w =
     (case (parse v, parse w) of
        (None, None) \<Rightarrow> 0
      | (None, Some pw) \<Rightarrow> - 1
      | (Some pv, None) \<Rightarrow> 1
      | (Some pv, Some pw) \<Rightarrow>
          if compareInt (major pv) (major pw) \<noteq> 0 then compareInt (major pv) (major pw)
          else if compareInt (minor pv) (minor pw) \<noteq> 0 then compareInt (minor pv) (minor pw)
          else if compareInt (patch pv) (patch pw) \<noteq> 0 then compareInt (patch pv) (patch pw)
          else comparePrerelease (prerelease pv) (prerelease pw))"


section \<open>Upstream services\<close>

text \<open>
  The programs talk to GitHub through the \<open>go-github\<close> client and to the npm registry over
  HTTP. Both are outside the repository. A \<open>Client\<close> gives, for each endpoint the source
  calls, the triple the call returns: the decoded value, the HTTP response (or \<open>nil\<close>) and
  the error (or \<open>nil\<close>). Every model function returns, next to its result, the list of
  upstream calls it made, in order.
\<close>

record Release =
  GetTagName :: string
  GetName :: string
  GetBody :: string

record Response =
  StatusCode :: nat
  RateLimitRemaining :: string
  RateLimitReset :: string

record Client =
  ListReleases :: "string \<Rightarrow> string \<Rightarrow> nat \<Rightarrow> Release list \<times> Response option \<times> string option"
  GetLatestRelease :: "string \<Rightarrow> string \<Rightarrow> Release option \<times> Response option \<times> string option"
  ListTags :: "string \<Rightarrow> string \<Rightarrow> nat \<Rightarrow> string list \<times> Response option \<times> string option"
  GetArchived :: "string \<Rightarrow> string \<Rightarrow> bool \<times> Response option \<times> string option"

datatype call =
    CallListReleases string string nat
  | CallGetLatestRelease string string
  | CallListTags string string nat
  | CallGet string string
  | CallNpmLatest string

text \<open>The pictographs of the status texts, as the UTF-8 bytes of the source files.\<close>

definition crossMark :: string where
  "crossMark = [CHR 0xE2, CHR 0x9D, CHR 0x8C]"

definition checkMark :: string where
  "checkMark = [CHR 0xE2, CHR 0x9C, CHR 0x85]"

definition sirenMark :: string where
  "sirenMark = [CHR 0xF0, CHR 0x9F, CHR 0x9A, CHR 0xA8]"

definition cycleMark :: string where
  "cycleMark = [CHR 0xF0, CHR 0x9F, CHR 0x94, CHR 0x84]"

definition noEntryMark :: string where
  "noEntryMark = [CHR 0xE2, CHR 0x9B, CHR 0x94, CHR 0xEF, CHR 0xB8, CHR 0x8F]"

definition upArrowMark :: string where
  "upArrowMark = [CHR 0xE2, CHR 0xAC, CHR 0x86, CHR 0xEF, CHR 0xB8, CHR 0x8F]"

definition newline :: string where
  "newline = [CHR 0x0A]"

section \<open>Security keywords\<close>

text \<open>The test the three release checks share, on the lower-cased text
  \<open>body + " " + name\<close> of a release.\<close>

definition securityKeywords :: "string list" where
  "securityKeywords = [''security'', ''vulnerability'', ''cve'', ''patch'']"

definition hasSecurityKeyword :: "string \<Rightarrow> bool" where
  "hasSecurityKeyword body =
     (Contains body ''security'' \<or> Contains body ''vulnerability''
      \<or> Contains body ''cve'' \<or> Contains body ''patch'')"

definition releaseText :: "Release \<Rightarrow> string" where
  "releaseText release = ToLower (GetBody release @ '' '' @ GetName release)"

section \<open>The repository list program (main.go)\<close>

record UpdateInfo =
  Repo :: string
  CurrentVersion :: string
  LatestVersion :: string
  UpdateNeeded :: bool
  SecurityPatch :: bool
  ReleaseNotesList :: "string list"
  Status :: string

text \<open>The loop of \<open>checkUpdate\<close> over all fetched releases (lines 124 to 142).\<close>

fun checkUpdate_loop :: "Release list \<Rightarrow> UpdateInfo \<Rightarrow> UpdateInfo" where
  "checkUpdate_loop [] info = info"
| "checkUpdate_loop (release # rest) info =
     (if Compare (CurrentVersion info) (withV (GetTagName release)) < 0
      then
        (let info1 = (if hasSecurityKeyword (releaseText release)
                      then info\<lparr>SecurityPatch := True\<rparr> else info);
             releaseDetail = newline @ ''--- Changelog for '' @ GetName release @ '' (''
               @ GetTagName release @ '') ---'' @ newline @ GetBody release @ newline
         in checkUpdate_loop rest
              (info1\<lparr>ReleaseNotesList := ReleaseNotesList info1 @ [releaseDetail]\<rparr>))
      else checkUpdate_loop rest info)"

definition checkUpdate :: "Client \<Rightarrow> string \<Rightarrow> string \<Rightarrow> string \<Rightarrow> UpdateInfo \<times> call list" where
  "checkUpdate client owner repo currentVer =
     (let info = \<lparr>Repo = owner @ ''/'' @ repo, CurrentVersion = currentVer,
                  LatestVersion = ''N/A'', UpdateNeeded = False, SecurityPatch = False,
                  ReleaseNotesList = [], Status = []\<rparr>;
          calls = [CallListReleases owner repo 10]
      in case ListReleases client owner repo 10 of
        (releases, resp, Some err) \<Rightarrow>
          (info\<lparr>Status := crossMark @ '' ERROR: '' @ err\<rparr>, calls)
      | (releases, resp, None) \<Rightarrow>
          (case releases of
             [] \<Rightarrow> (info\<lparr>Status := crossMark @ '' ERROR: No releases found.''\<rparr>, calls)
           | latestRelease # others \<Rightarrow>
               (let info1 = info\<lparr>LatestVersion := withV (GetTagName latestRelease)\<rparr> in
                if Compare (CurrentVersion info1) (LatestVersion info1) < 0
                then
                  (let info2 = checkUpdate_loop releases (info1\<lparr>UpdateNeeded := True\<rparr>) in
                   if SecurityPatch info2
                   then (info2\<lparr>Status := sirenMark
                           @ '' URGENT Update Required (Security Patch!)''\<rparr>, calls)
                   else (info2\<lparr>Status := cycleMark @ '' Update Recommended''\<rparr>, calls))
                else (info1\<lparr>Status := checkMark @ '' Up to date''\<rparr>, calls))))"

text \<open>\<open>parseLine\<close>: one line of the input file, \<open>owner/repo version\<close>. \<open>strings.Fields\<close>
  cuts at runs of white space; the model takes the fields as they come out of it.\<close>

definition parseLine_fields :: "string list \<Rightarrow> string \<times> string \<times> string" where
  "parseLine_fields parts =
     (case parts of
        [repoAndOwner, ver] \<Rightarrow>
          (case Split repoAndOwner ''/'' of
             [owner, repo] \<Rightarrow> (owner, repo, withV ver)
           | _ \<Rightarrow> ([], [], withV ver))
      | _ \<Rightarrow> ([], [], []))"

section \<open>The Erlang dependency program (rebar.config)\<close>

text \<open>The fields of \<open>DependencyInfo\<close> carry the prefix \<open>dep\<close>: several of them have the
  names of fields of \<open>UpdateInfo\<close>.\<close>

record DependencyInfo =
  depName :: string
  depCurrentVersion :: string
  depRepoURL :: string
  depLatestVersion :: string
  depUpdateNeeded :: bool
  depStatus :: string

definition parseGitHubURL :: "string \<Rightarrow> string \<times> string" where
  "parseGitHubURL url =
     (case Split (TrimPrefix (TrimPrefix (TrimSuffix url ''.git'') ''git://'')
                    ''https://github.com/'') ''/'' of
        owner # repo # rest \<Rightarrow> (owner, repo)
      | _ \<Rightarrow> ([], []))"

text \<open>The loop of \<open>findLatestVersion\<close> over the tags: the greatest valid version, the
  first seen among equals.\<close>

fun findLatestVersion_loop :: "string list \<Rightarrow> string \<Rightarrow> string" where
  "findLatestVersion_loop [] latestValidVersion = latestValidVersion"
| "findLatestVersion_loop (tagName # rest) latestValidVersion =
     (let verToCompare = withV tagName in
      if IsValid verToCompare
         \<and> (latestValidVersion = [] \<or> Compare verToCompare latestValidVersion > 0)
      then findLatestVersion_loop rest verToCompare
      else findLatestVersion_loop rest latestValidVersion)"

definition findLatestVersion :: "Client \<Rightarrow> string \<Rightarrow> string \<Rightarrow> (string + string) \<times> call list" where
  "findLatestVersion client owner repo =
     (case GetLatestRelease client owner repo of
        (Some release, resp, None) \<Rightarrow>
          (Inr (GetTagName release), [CallGetLatestRelease owner repo])
      | _ \<Rightarrow>
          (let calls = [CallGetLatestRelease owner repo, CallListTags owner repo 30] in
           case ListTags client owner repo 30 of
             (tags, resp, Some tagErr) \<Rightarrow>
               (Inl (''could not retrieve tags: '' @ tagErr), calls)
           | (tags, resp, None) \<Rightarrow>
               (let latestValidVersion = findLatestVersion_loop tags [] in
                if latestValidVersion = []
                then (Inl ''no valid semantic version tags found'', calls)
                else (Inr latestValidVersion, calls))))"

text \<open>The body of the loop of \<open>checkUpdateAndCreateReport\<close>, for one dependency.\<close>

definition checkUpdateAndCreateReport_step :: "Client \<Rightarrow> DependencyInfo \<Rightarrow> DependencyInfo \<times> call list" where
  "checkUpdateAndCreateReport_step client dep =
     (let (owner, repo) = parseGitHubURL (depRepoURL dep);
          currentVer = withV (depCurrentVersion dep)
      in if owner = [] \<or> repo = [] \<or> \<not> IsValid currentVer
         then (dep\<lparr>depStatus := crossMark @ '' Invalid dependency details''\<rparr>, [])
         else (case findLatestVersion client owner repo of
           (Inl err, calls) \<Rightarrow> (dep\<lparr>depStatus := crossMark @ '' Error: '' @ err\<rparr>, calls)
         | (Inr latestVerWithV, calls) \<Rightarrow>
             (if Compare latestVerWithV currentVer > 0
              then (dep\<lparr>depUpdateNeeded := True,
                         depStatus := upArrowMark @ '' Update Available'',
                         depLatestVersion := TrimPrefix latestVerWithV ''v''\<rparr>, calls)
              else (dep\<lparr>depUpdateNeeded := False,
                         depStatus := checkMark @ '' Up to Date'',
                         depLatestVersion := TrimPrefix latestVerWithV ''v''\<rparr>, calls))))"

fun checkUpdateAndCreateReport :: "Client \<Rightarrow> DependencyInfo list \<Rightarrow> DependencyInfo list \<times> call list" where
  "checkUpdateAndCreateReport client [] = ([], [])"
| "checkUpdateAndCreateReport client (dep # deps) =
     (let (r, c) = checkUpdateAndCreateReport_step client dep;
          (rs, cs) = checkUpdateAndCreateReport client deps
      in (r # rs, c @ cs))"

text \<open>Step 4 of \<open>main\<close>: only dependencies whose current version is a valid semantic
  version reach the check.\<close>

definition main_filteredDeps :: "DependencyInfo list \<Rightarrow> DependencyInfo list" where
  "main_filteredDeps deps = filter (\<lambda>dep. IsValid (withV (depCurrentVersion dep))) deps"


section \<open>The npm programs (package.json)\<close>

text \<open>
  There are two versions of the npm check. The older one (a source file whose name is
  not known, with the report header in Persian) asks GitHub for the latest release only
  and has no notion of an archived repository. The newer one
  (\<open>frontend/frontend.go\<close>) checks the archived flag and lists the releases.
  \<open>parseGitHubRepoURL\<close> and \<open>extractBodyFromChangelog\<close> are the same text in both.
\<close>

record NpmInfo =
  Version :: string
  RepositoryURL :: string

text \<open>
  What the check takes from its surroundings besides the GitHub client: the registry
  answer of \<open>fetchNpmInfo\<close> (an error text or the decoded document), the rendering
  \<open>time.Unix(t, 0).Format(time.RFC1123)\<close> in the zone of the machine, and \<open>strconv.Quote\<close>,
  which the text of a number-parsing error applies to its input.
\<close>

record Env =
  fetchNpmInfo :: "string \<Rightarrow> string + NpmInfo"
  FormatRFC1123 :: "int \<Rightarrow> string"
  Quote :: "string \<Rightarrow> string"

definition TrimFunc :: "string \<Rightarrow> (char \<Rightarrow> bool) \<Rightarrow> string" where
  "TrimFunc s f = rev (dropWhile f (rev (dropWhile f s)))"

definition rangeChars :: string where
  "rangeChars = ''^~=>''"

text \<open>The first lines of both \<open>checkNpmUpdate\<close>: the current version as it is compared.\<close>

definition cleanVer :: "string \<Rightarrow> string" where
  "cleanVer currentVer = withV (TrimFunc currentVer (\<lambda>r. r \<in> set rangeChars))"

definition parseGitHubRepoURL :: "string \<Rightarrow> string \<times> string" where
  "parseGitHubRepoURL url =
     (let url1 = TrimPrefix url ''git://'';
          url2 = TrimPrefix url1 ''git+https://'';
          url3 = TrimPrefix url2 ''https://'';
          url4 = TrimPrefix url3 ''http://'';
          url5 = TrimPrefix url4 ''git@'';
          url6 = hd (Split url5 ''#'');
          url7 = TrimSuffix url6 ''.git'';
          url8 = (case Split url7 '':'' of p0 # p1 # ps \<Rightarrow> p1 | _ \<Rightarrow> url7);
          parts = filter (\<lambda>p. p \<noteq> []) (Split url8 ''/'')
      in if 2 \<le> length parts
            \<and> (Contains (parts ! 0) ''github.com'' \<or> Contains (parts ! 0) ''gitlab.com'')
         then (if 3 \<le> length parts then (parts ! 1, parts ! 2) else ([], []))
         else if 2 \<le> length parts then (parts ! 0, parts ! 1)
         else ([], []))"

text \<open>\<open>strconv.ParseInt(s, 10, 64)\<close>: the value and the error. The scan stops at the first
  byte that is no digit (a syntax error) or at the digit that leaves 64 bits (a range
  error), whichever comes first.\<close>

datatype numError = ErrSyntax | ErrRange

fun ParseUint_loop :: "int \<Rightarrow> string \<Rightarrow> numError + int" where
  "ParseUint_loop n [] = Inr n"
| "ParseUint_loop n (c # cs) =
     (if \<not> isDigit c then Inl ErrSyntax
      else if 1844674407370955162 \<le> n then Inl ErrRange
      else if 18446744073709551615 < n * 10 + (of_char c - 48) then Inl ErrRange
      else ParseUint_loop (n * 10 + (of_char c - 48)) cs)"

definition ParseUint :: "string \<Rightarrow> numError + int" where
  "ParseUint s = (if s = [] then Inl ErrSyntax else ParseUint_loop 0 s)"

definition ParseInt :: "string \<Rightarrow> int \<times> numError option" where
  "ParseInt s =
     (if s = [] then (0, Some ErrSyntax)
      else
        (let neg = (hd s = CHR ''-'');
             s1 = (if hd s = CHR ''+'' \<or> hd s = CHR ''-'' then tl s else s)
         in case ParseUint s1 of
              Inl ErrSyntax \<Rightarrow> (0, Some ErrSyntax)
            | Inl ErrRange \<Rightarrow>
                (if neg then - 9223372036854775808 else 9223372036854775807, Some ErrRange)
            | Inr un \<Rightarrow>
                if \<not> neg \<and> 9223372036854775808 \<le> un
                then (9223372036854775807, Some ErrRange)
                else if neg \<and> 9223372036854775808 < un
                then (- 9223372036854775808, Some ErrRange)
                else (if neg then - un else un, None)))"

definition numErrorText :: "Env \<Rightarrow> string \<Rightarrow> numError \<Rightarrow> string" where
  "numErrorText env s e =
     ''strconv.ParseInt: parsing '' @ Quote env s @ '': ''
       @ (case e of ErrSyntax \<Rightarrow> ''invalid syntax'' | ErrRange \<Rightarrow> ''value out of range'')"

text \<open>The version a release tag stands for: the text after the last \<open>@\<close>, with \<open>v\<close> in
  front. Both versions of the check compute it inline.\<close>

definition cleanTag :: "string \<Rightarrow> string" where
  "cleanTag tag =
     (let cleanTagParts = Split tag ''@'' in
      withV (if 1 < length cleanTagParts then last cleanTagParts else tag))"

definition latestChangelog :: "Release \<Rightarrow> string \<Rightarrow> string \<Rightarrow> string" where
  "latestChangelog release owner repo =
     newline @ ''--- Latest Changelog for '' @ GetName release @ '' (Tag: ''
       @ GetTagName release @ '') (Owner: '' @ owner @ '') (Repo: '' @ repo @ '') ---''
       @ newline @ GetBody release @ newline"

definition rateLimited :: "Response option \<Rightarrow> bool" where
  "rateLimited resp =
     (case resp of
        None \<Rightarrow> False
      | Some r \<Rightarrow> StatusCode r = 403 \<and> Contains (RateLimitRemaining r) ''0'')"

definition rateLimitMessage :: "string \<Rightarrow> string \<Rightarrow> string \<Rightarrow> string" where
  "rateLimitMessage resetTime owner repo =
     crossMark @ '' GitHub Rate Limit Exceeded. Try again after '' @ resetTime
       @ ''. (Repo: '' @ owner @ ''/'' @ repo @ '')''"

definition changelogUnavailable :: "string list \<Rightarrow> bool" where
  "changelogUnavailable notes =
     (notes = [] \<or> HasPrefix (hd notes) ''Warning:'' \<or> HasPrefix (hd notes) crossMark)"

subsection \<open>The older check: latest release only\<close>

text \<open>The loop over the tags (lines 270 to 275): the first tag that names the latest
  version, if there is one. The source takes \<open>info.LatestVersion[1:]\<close>; the latest
  version starts with \<open>v\<close> at that point, so the slice is its tail.\<close>

fun findTag :: "string list \<Rightarrow> string \<Rightarrow> string option" where
  "findTag [] latest = None"
| "findTag (tag # rest) latest =
     (if HasSuffix tag (tl latest) \<or> tag = latest then Some tag else findTag rest latest)"

definition resetHeader :: "Response option \<Rightarrow> string" where
  "resetHeader resp = (case resp of None \<Rightarrow> [] | Some r \<Rightarrow> RateLimitReset r)"

text \<open>The branch of \<open>checkNpmUpdate\<close> for a resolved repository (lines 228 to 284): one
  query for the latest release, and one for the tags when that release is not found.\<close>

definition checkLatestRelease :: "Env \<Rightarrow> Client \<Rightarrow> string \<Rightarrow> string \<Rightarrow> UpdateInfo \<Rightarrow> UpdateInfo \<times> call list" where
  "checkLatestRelease env client owner repo info =
     (case GetLatestRelease client owner repo of
        (release, resp, tagErr) \<Rightarrow>
          if rateLimited resp
          then
            (case ParseInt (resetHeader resp) of
               (resetTimeInt, None) \<Rightarrow>
                 (info\<lparr>ReleaseNotesList := ReleaseNotesList info
                    @ [rateLimitMessage (FormatRFC1123 env resetTimeInt) owner repo]\<rparr>,
                  [CallGetLatestRelease owner repo])
             | (resetTimeInt, Some e) \<Rightarrow>
                 (info\<lparr>ReleaseNotesList := ReleaseNotesList info
                    @ [crossMark @ '' GitHub Rate Limit Exceeded. (Error parsing time: ''
                       @ numErrorText env (resetHeader resp) e
                       @ '') (Repo: '' @ owner @ ''/'' @ repo @ '')'']\<rparr>,
                  [CallGetLatestRelease owner repo]))
          else
            (case (release, tagErr) of
               (Some rel, None) \<Rightarrow>
                 (if Compare (CurrentVersion info) (cleanTag (GetTagName rel)) < 0
                  then
                    (let info1 = (if hasSecurityKeyword (releaseText rel)
                                  then info\<lparr>SecurityPatch := True\<rparr> else info)
                     in (info1\<lparr>ReleaseNotesList := ReleaseNotesList info1
                           @ [latestChangelog rel owner repo]\<rparr>,
                         [CallGetLatestRelease owner repo]))
                  else (info, [CallGetLatestRelease owner repo]))
             | (None, None) \<Rightarrow> (info, [CallGetLatestRelease owner repo])
             | (r, Some err) \<Rightarrow>
                 if Contains err ''404 Not Found''
                 then
                   (case ListTags client owner repo 10 of
                      (tags, resp2, tagListErr) \<Rightarrow>
                        (let info1 =
                               (case (if tagListErr = None
                                      then findTag tags (LatestVersion info) else None) of
                                  Some tag \<Rightarrow>
                                    info\<lparr>ReleaseNotesList := ReleaseNotesList info
                                      @ [''Warning: Found Tag '' @ [CHR 0x27] @ tag @ [CHR 0x27]
                                         @ ''. Changelog unavailable (Repo: '' @ owner @ ''/''
                                         @ repo @ '')'']\<rparr>
                                | None \<Rightarrow> info)
                         in ((if ReleaseNotesList info1 = []
                              then info1\<lparr>ReleaseNotesList :=
                                     [''Warning: Could not fetch release or tag details from GitHub (''
                                       @ owner @ ''/'' @ repo @ ''). Error: '' @ err]\<rparr>
                              else info1),
                             [CallGetLatestRelease owner repo, CallListTags owner repo 10])))
                 else
                   (info\<lparr>ReleaseNotesList := ReleaseNotesList info
                      @ [''Warning: Could not fetch latest release details from GitHub (''
                         @ owner @ ''/'' @ repo @ ''). Error: '' @ err]\<rparr>,
                    [CallGetLatestRelease owner repo])))"

text \<open>The last lines of the older check (289 to 295).\<close>

definition finalStatus_part001 :: "UpdateInfo \<Rightarrow> string" where
  "finalStatus_part001 info =
     (if SecurityPatch info then sirenMark @ '' URGENT Update Required (Security Patch!)''
      else if changelogUnavailable (ReleaseNotesList info)
      then cycleMark @ '' Update Recommended (Changelog unavailable)''
      else cycleMark @ '' Update Recommended'')"

definition checkNpmUpdate_part001 :: "Env \<Rightarrow> Client \<Rightarrow> string \<Rightarrow> string \<Rightarrow> UpdateInfo \<times> call list" where
  "checkNpmUpdate_part001 env client pkgName currentVer =
     (let info = \<lparr>Repo = pkgName, CurrentVersion = cleanVer currentVer,
                  LatestVersion = ''N/A'', UpdateNeeded = False, SecurityPatch = False,
                  ReleaseNotesList = [], Status = []\<rparr>
      in case fetchNpmInfo env pkgName of
        Inl err \<Rightarrow>
          (info\<lparr>Status := crossMark @ '' NPM Fetch Error: '' @ err\<rparr>, [CallNpmLatest pkgName])
      | Inr npmInfo \<Rightarrow>
          (let info1 = info\<lparr>LatestVersion := withV (Version npmInfo)\<rparr> in
           if Compare (CurrentVersion info1) (LatestVersion info1) \<ge> 0
           then (info1\<lparr>Status := checkMark @ '' Up to date''\<rparr>, [CallNpmLatest pkgName])
           else
             (let info2 = info1\<lparr>UpdateNeeded := True\<rparr>;
                  repoURL = RepositoryURL npmInfo;
                  (owner, repo) = parseGitHubRepoURL repoURL;
                  (info3, calls) =
                    (if owner \<noteq> [] \<and> repo \<noteq> []
                     then checkLatestRelease env client owner repo info2
                     else
                       (info2\<lparr>ReleaseNotesList := ReleaseNotesList info2
                          @ [''Warning: Could not extract GitHub repo from NPM URL: ''
                             @ repoURL]\<rparr>, []))
              in (info3\<lparr>Status := finalStatus_part001 info3\<rparr>,
                  CallNpmLatest pkgName # calls))))"

subsection \<open>The newer check: archived flag and release list\<close>

record UpdateInfoA = UpdateInfo +
  IsArchived :: bool

text \<open>The loop over the listed releases (lines 262 to 289). It leaves at the first
  release whose version is not above the current one; the flag tells whether the
  changelog of the newest release has been stored.\<close>

fun checkNpmUpdate_loop :: "string \<Rightarrow> string \<Rightarrow> Release list \<Rightarrow> UpdateInfoA \<times> bool \<Rightarrow> UpdateInfoA \<times> bool" where
  "checkNpmUpdate_loop owner repo [] st = st"
| "checkNpmUpdate_loop owner repo (release # rest) (info, found) =
     (if Compare (cleanTag (GetTagName release)) (CurrentVersion info) \<le> 0
      then (info, found)
      else
        (let info1 = (if hasSecurityKeyword (releaseText release)
                      then info\<lparr>SecurityPatch := True\<rparr> else info)
         in if \<not> found
            then checkNpmUpdate_loop owner repo rest
                   (info1\<lparr>ReleaseNotesList :=
                      ReleaseNotesList info1 @ [latestChangelog release owner repo]\<rparr>, True)
            else checkNpmUpdate_loop owner repo rest (info1, found)))"

text \<open>Step 3 of the newer check: the final status.\<close>

definition finalStatus :: "UpdateInfoA \<Rightarrow> string" where
  "finalStatus info =
     (if IsArchived info
      then (if UpdateNeeded info then noEntryMark @ '' DEPRECATED (Update Needed)''
            else noEntryMark @ '' DEPRECATED (Up to date)'')
      else if SecurityPatch info then sirenMark @ '' URGENT Update Required (Security Patch!)''
      else if \<not> UpdateNeeded info then checkMark @ '' Up to date''
      else if changelogUnavailable (ReleaseNotesList info)
      then cycleMark @ '' Update Recommended (Changelog unavailable)''
      else cycleMark @ '' Update Recommended'')"

text \<open>Step 1 of the newer check: the archived flag of the repository. A failed query
  is printed and otherwise ignored.\<close>

definition checkArchived :: "Client \<Rightarrow> string \<Rightarrow> string \<Rightarrow> UpdateInfoA \<Rightarrow> UpdateInfoA" where
  "checkArchived client owner repo info =
     (case GetArchived client owner repo of
        (archived, resp, Some repoErr) \<Rightarrow> info
      | (archived, resp, None) \<Rightarrow>
          if archived
          then info\<lparr>IsArchived := True, Status := noEntryMark @ '' DEPRECATED (Archived)''\<rparr>
          else info)"

text \<open>Step 2 of the newer check, run when an update is needed: one query for the
  releases, then the loop.\<close>

definition checkReleases :: "Env \<Rightarrow> Client \<Rightarrow> string \<Rightarrow> string \<Rightarrow> UpdateInfoA \<Rightarrow> UpdateInfoA \<times> call list" where
  "checkReleases env client owner repo info =
     (case ListReleases client owner repo 30 of
        (releases, resp, listErr) \<Rightarrow>
          if rateLimited resp
          then
            (info\<lparr>ReleaseNotesList := ReleaseNotesList info
               @ [rateLimitMessage (FormatRFC1123 env (fst (ParseInt (resetHeader resp))))
                    owner repo]\<rparr>,
             [CallListReleases owner repo 30])
          else
            (case listErr of
               Some err \<Rightarrow>
                 (info\<lparr>ReleaseNotesList := ReleaseNotesList info
                    @ [''Warning: Could not list releases from GitHub ('' @ owner @ ''/'' @ repo
                       @ ''). Error: '' @ err]\<rparr>,
                  [CallListReleases owner repo 30])
             | None \<Rightarrow>
                 (case checkNpmUpdate_loop owner repo releases (info, False) of
                    (info', found) \<Rightarrow>
                      if \<not> found
                      then
                        (info'\<lparr>ReleaseNotesList := ReleaseNotesList info'
                           @ [''Warning: Could not fetch specific release details for version ''
                              @ LatestVersion info' @ '', or only tags exist. (Repo: '' @ owner
                              @ ''/'' @ repo @ '')'']\<rparr>,
                         [CallListReleases owner repo 30])
                      else (info', [CallListReleases owner repo 30]))))"

definition checkNpmUpdate :: "Env \<Rightarrow> Client \<Rightarrow> string \<Rightarrow> string \<Rightarrow> UpdateInfoA \<times> call list" where
  "checkNpmUpdate env client pkgName currentVer =
     (let info = \<lparr>Repo = pkgName, CurrentVersion = cleanVer currentVer,
                  LatestVersion = ''N/A'', UpdateNeeded = False, SecurityPatch = False,
                  ReleaseNotesList = [], Status = [], IsArchived = False\<rparr>
      in case fetchNpmInfo env pkgName of
        Inl err \<Rightarrow>
          (info\<lparr>Status := crossMark @ '' NPM Fetch Error: '' @ err\<rparr>, [CallNpmLatest pkgName])
      | Inr npmInfo \<Rightarrow>
          (let info1 = info\<lparr>LatestVersion := withV (Version npmInfo)\<rparr>;
               info2 = info1\<lparr>UpdateNeeded :=
                          \<not> (Compare (CurrentVersion info1) (LatestVersion info1) \<ge> 0)\<rparr>;
               (owner, repo) = parseGitHubRepoURL (RepositoryURL npmInfo)
           in if owner = [] \<or> repo = []
              then (info2\<lparr>Status := cycleMark @ '' Update Recommended (Repo link missing)''\<rparr>,
                    [CallNpmLatest pkgName])
              else
                (let info3 = checkArchived client owner repo info2
                 in if IsArchived info3 \<and> \<not> UpdateNeeded info3
                    then (info3, [CallNpmLatest pkgName, CallGet owner repo])
                    else
                      (let (info4, calls) =
                             (if UpdateNeeded info3
                              then checkReleases env client owner repo info3
                              else (info3, []))
                       in (info4\<lparr>Status := finalStatus info4\<rparr>,
                           [CallNpmLatest pkgName, CallGet owner repo] @ calls)))))"

section \<open>The changelog excerpt\<close>

text \<open>
  \<open>strings.TrimSpace\<close> removes white space at both ends, rune by rune. \<open>spaceRunes\<close> lists
  the UTF-8 encodings of the runes \<open>unicode.IsSpace\<close> accepts: tab, line feed, vertical
  tab, form feed, carriage return, space, U+0085, U+00A0, U+1680, U+2000 to U+200A, U+2028,
  U+2029, U+202F, U+205F and U+3000.
\<close>

definition spaceRunes :: "string list" where
  "spaceRunes =
     [[CHR 0x09], [CHR 0x0A], [CHR 0x0B], [CHR 0x0C], [CHR 0x0D], [CHR 0x20],
      [CHR 0xC2, CHR 0x85], [CHR 0xC2, CHR 0xA0], [CHR 0xE1, CHR 0x9A, CHR 0x80],
      [CHR 0xE2, CHR 0x80, CHR 0x80], [CHR 0xE2, CHR 0x80, CHR 0x81],
      [CHR 0xE2, CHR 0x80, CHR 0x82], [CHR 0xE2, CHR 0x80, CHR 0x83],
      [CHR 0xE2, CHR 0x80, CHR 0x84], [CHR 0xE2, CHR 0x80, CHR 0x85],
      [CHR 0xE2, CHR 0x80, CHR 0x86], [CHR 0xE2, CHR 0x80, CHR 0x87],
      [CHR 0xE2, CHR 0x80, CHR 0x88], [CHR 0xE2, CHR 0x80, CHR 0x89],
      [CHR 0xE2, CHR 0x80, CHR 0x8A], [CHR 0xE2, CHR 0x80, CHR 0xA8],
      [CHR 0xE2, CHR 0x80, CHR 0xA9], [CHR 0xE2, CHR 0x80, CHR 0xAF],
      [CHR 0xE2, CHR 0x81, CHR 0x9F], [CHR 0xE3, CHR 0x80, CHR 0x80]]"

lemma spaceRunes_nonempty: "w \<in> set spaceRunes \<Longrightarrow> w \<noteq> []"
  by (auto simp: spaceRunes_def)

lemma find_Some_member: "find P xs = Some w \<Longrightarrow> w \<in> set xs \<and> P w"
  by (induction xs) (auto split: if_splits)

lemma find_spaceRune: "find P spaceRunes = Some w \<Longrightarrow> w \<noteq> [] \<and> P w"
  using find_Some_member [of P spaceRunes w] spaceRunes_nonempty [of w] by blast

function trimLeftSpace :: "string \<Rightarrow> string" where
  "trimLeftSpace s =
     (case find (\<lambda>w. prefix w s) spaceRunes of
        None \<Rightarrow> s
      | Some w \<Rightarrow> trimLeftSpace (drop (length w) s))"
  by pat_completeness auto
termination
proof (relation "measure length")
  show "wf (measure length)" by simp
next
  fix s w
  assume "find (\<lambda>w. prefix w s) spaceRunes = Some w"
  then have "w \<noteq> []" "prefix w s"
    using find_spaceRune [of "\<lambda>w. prefix w s" w] by auto
  then show "(drop (length w) s, s) \<in> measure length"
    by (cases s) (auto simp: neq_Nil_conv)
qed

declare trimLeftSpace.simps [simp del]

function trimRightSpace :: "string \<Rightarrow> string" where
  "trimRightSpace s =
     (case find (\<lambda>w. suffix w s) spaceRunes of
        None \<Rightarrow> s
      | Some w \<Rightarrow> trimRightSpace (take (length s - length w) s))"
  by pat_completeness auto
termination
proof (relation "measure length")
  show "wf (measure length)" by simp
next
  fix s w
  assume "find (\<lambda>w. suffix w s) spaceRunes = Some w"
  then have "w \<noteq> []" "suffix w s"
    using find_spaceRune [of "\<lambda>w. suffix w s" w] by auto
  then show "(take (length s - length w) s, s) \<in> measure length"
    by (auto simp: suffix_def)
qed

declare trimRightSpace.simps [simp del]

definition TrimSpace :: "string \<Rightarrow> string" where
  "TrimSpace s = trimRightSpace (trimLeftSpace s)"

text \<open>The loop \<open>for strings.Contains(body, "  ") { body = strings.ReplaceAll(body, "  ", " ") }\<close>
  ends because every round makes the text shorter.\<close>

lemma ReplaceAll_spaces_le: "length (ReplaceAll s ''  '' '' '') \<le> length s"
proof (induction s "''  ''" "'' ''" rule: ReplaceAll.induct)
  case 1
  show ?case by simp
next
  case (2 c cs)
  show ?case
  proof (cases "prefix ''  '' (c # cs)")
    case True
    then obtain r where r: "c # cs = ''  '' @ r"
      by (auto simp: prefix_def)
    with 2 True show ?thesis by auto
  next
    case False
    with 2 show ?thesis by auto
  qed
qed

lemma ReplaceAll_spaces_less:
  "Contains s ''  '' \<Longrightarrow> length (ReplaceAll s ''  '' '' '') < length s"
proof (induction s "''  ''" "'' ''" rule: ReplaceAll.induct)
  case 1
  then show ?case by simp
next
  case (2 c cs)
  show ?case
  proof (cases "prefix ''  '' (c # cs)")
    case True
    then obtain r where r: "c # cs = ''  '' @ r"
      by (auto simp: prefix_def)
    have "length (ReplaceAll r ''  '' '' '') \<le> length r"
      by (rule ReplaceAll_spaces_le)
    with True r show ?thesis by auto
  next
    case False
    with 2 show ?thesis by auto
  qed
qed

function collapseSpaces :: "string \<Rightarrow> string" where
  "collapseSpaces body =
     (if Contains body ''  '' then collapseSpaces (ReplaceAll body ''  '' '' '') else body)"
  by pat_completeness auto
termination
  by (relation "measure length") (auto simp: ReplaceAll_spaces_less)

declare collapseSpaces.simps [simp del]

text \<open>A panic of the Go runtime: an index outside a slice of the given length.\<close>

datatype panic = IndexOutOfRange nat nat

definition extractBodyFromChangelog :: "string \<Rightarrow> panic + string" where
  "extractBodyFromChangelog notes =
     (let parts = Split notes ''---'' in
      if length parts \<le> 2 then Inl (IndexOutOfRange 2 (length parts))
      else
        (let body = TrimSpace (parts ! 2);
             body = ReplaceAll body ''*'' [];
             body = ReplaceAll body ''**'' [];
             body = ReplaceAll body ''#'' [];
             body = ReplaceAll body ''['' [];
             body = ReplaceAll body '']'' [];
             body = ReplaceAll body ''('' [];
             body = ReplaceAll body '')'' [];
             body = ReplaceAll body [CHR 0x60] [];
             body = ReplaceAll body [CHR 0x0A] '' '';
             body = ReplaceAll body [CHR 0x0D] '' '';
             body = collapseSpaces body
         in Inr (ReplaceAll body ''|'' [CHR 0x5C, CHR ''|''])))"

text \<open>The summary cell of \<open>writeOutput\<close> for release notes that are neither a warning nor
  an error (the last branch of its loop body): the first 80 bytes and an ellipsis.\<close>

definition changelogSummary :: "string \<Rightarrow> panic + string" where
  "changelogSummary notes =
     (case extractBodyFromChangelog notes of
        Inl p \<Rightarrow> Inl p
      | Inr changelogBody \<Rightarrow>
          if 80 < length changelogBody
          then Inr (TrimSpace (take 80 changelogBody) @ ''...'')
          else Inr (TrimSpace changelogBody))"

text \<open>What the claims say of an excerpt: no pipe without a backslash before it.\<close>

fun pipesEscapedAfter :: "char \<Rightarrow> string \<Rightarrow> bool" where
  "pipesEscapedAfter prev [] = True"
| "pipesEscapedAfter prev (c # cs) =
     ((c \<noteq> CHR ''|'' \<or> prev = CHR 0x5C) \<and> pipesEscapedAfter c cs)"

definition noUnescapedPipe :: "string \<Rightarrow> bool" where
  "noUnescapedPipe s = pipesEscapedAfter (CHR '' '') s"

definition markdownChars :: string where
  "markdownChars = ''*#[]()'' @ [CHR 0x60]"

definition strippedChars :: "char set" where
  "strippedChars = set markdownChars \<union> {CHR 0x0A, CHR 0x0D}"

section \<open>The precedence of the specification\<close>

text \<open>
  The precedence of the specification, in its words and order, as a function of the four
  facts it ranks: archived, update needed, security patch, changelog unavailable. The
  status texts are those of the newer npm check; "deprecated, up to date" is its text
  \<open>DEPRECATED (Archived)\<close>.
\<close>

definition statusByPrecedence :: "bool \<Rightarrow> bool \<Rightarrow> bool \<Rightarrow> bool \<Rightarrow> string" where
  "statusByPrecedence archived updateNeeded securityPatch unavailable =
     (if archived \<and> updateNeeded then noEntryMark @ '' DEPRECATED (Update Needed)''
      else if archived then noEntryMark @ '' DEPRECATED (Archived)''
      else if securityPatch then sirenMark @ '' URGENT Update Required (Security Patch!)''
      else if updateNeeded \<and> unavailable
      then cycleMark @ '' Update Recommended (Changelog unavailable)''
      else if updateNeeded then cycleMark @ '' Update Recommended''
      else checkMark @ '' Up to date'')"

section \<open>Concrete upstreams\<close>

text \<open>
  Upstreams for the worked scenarios. \<open>FormatRFC1123_in\<close> renders an instant on the
  layout \<open>Mon, 02 Jan 2006 15:04:05 MST\<close> in a zone given by its abbreviation and its
  offset in seconds east of UTC, by the civil calendar (years 0 to 9999). \<open>quotePlain\<close>
  is what \<open>strconv.Quote\<close> returns for printable ASCII text without double quote and
  backslash.
\<close>

function decimal :: "nat \<Rightarrow> string" where
  "decimal n = (if n < 10 then [char_of (48 + n)] else decimal (n div 10) @ [char_of (48 + n mod 10)])"
  by pat_completeness auto
termination
  by (relation "measure id") auto

declare decimal.simps [simp del]

definition appendInt :: "int \<Rightarrow> nat \<Rightarrow> string" where
  "appendInt x width =
     (if x < 0 then ''-'' else []) @ replicate (width - length (decimal (nat \<bar>x\<bar>))) (CHR ''0'')
       @ decimal (nat \<bar>x\<bar>)"

definition civilFromDays :: "int \<Rightarrow> int \<times> int \<times> int" where
  "civilFromDays days =
     (let z = days + 719468;
          era = z div 146097;
          doe = z mod 146097;
          yoe = (doe - doe div 1460 + doe div 36524 - doe div 146096) div 365;
          doy = doe - (365 * yoe + yoe div 4 - yoe div 100);
          mp = (5 * doy + 2) div 153;
          d = doy - (153 * mp + 2) div 5 + 1;
          m = (if mp < 10 then mp + 3 else mp - 9)
      in (if m \<le> 2 then yoe + era * 400 + 1 else yoe + era * 400, m, d))"

definition dayNames :: "string list" where
  "dayNames = [''Sun'', ''Mon'', ''Tue'', ''Wed'', ''Thu'', ''Fri'', ''Sat'']"

definition monthNames :: "string list" where
  "monthNames = [''Jan'', ''Feb'', ''Mar'', ''Apr'', ''May'', ''Jun'',
                 ''Jul'', ''Aug'', ''Sep'', ''Oct'', ''Nov'', ''Dec'']"

definition FormatRFC1123_in :: "string \<Rightarrow> int \<Rightarrow> int \<Rightarrow> string" where
  "FormatRFC1123_in zone offset sec =
     (let t = sec + offset;
          days = t div 86400;
          rem = t mod 86400;
          (year, month, day) = civilFromDays days
      in dayNames ! nat ((days + 4) mod 7) @ '', '' @ appendInt day 2 @ '' ''
           @ monthNames ! nat (month - 1) @ '' '' @ appendInt year 4 @ '' ''
           @ appendInt (rem div 3600) 2 @ '':'' @ appendInt (rem mod 3600 div 60) 2 @ '':''
           @ appendInt (rem mod 60) 2 @ '' ''
           @ (if zone \<noteq> [] then zone
              else (if offset < 0 then ''-'' else ''+'')
                     @ appendInt (\<bar>offset\<bar> div 60 div 60) 2
                     @ appendInt (\<bar>offset\<bar> div 60 mod 60) 2))"

definition quotePlain :: "string \<Rightarrow> string" where
  "quotePlain s = [CHR 0x22] @ s @ [CHR 0x22]"

text \<open>A registry that knows one latest version and one repository URL for every
  package, on a machine in UTC.\<close>

definition fixedEnv :: "string \<Rightarrow> string \<Rightarrow> Env" where
  "fixedEnv ver url =
     \<lparr>fetchNpmInfo = (\<lambda>pkgName. Inr \<lparr>Version = ver, RepositoryURL = url\<rparr>),
      FormatRFC1123 = FormatRFC1123_in ''UTC'' 0,
      Quote = quotePlain\<rparr>"

text \<open>A GitHub that answers every repository alike: the releases (the first is the
  latest), the response and error of the release queries, and the archived flag.\<close>

definition fixedClient :: "Release list \<Rightarrow> Response option \<Rightarrow> string option \<Rightarrow> bool \<Rightarrow> Client" where
  "fixedClient releases resp err archived =
     \<lparr>ListReleases = (\<lambda>owner repo perPage. (releases, resp, err)),
      GetLatestRelease = (\<lambda>owner repo.
        (case releases of [] \<Rightarrow> None | r # rs \<Rightarrow> Some r, resp, err)),
      ListTags = (\<lambda>owner repo perPage. (map GetTagName releases, None, None)),
      GetArchived = (\<lambda>owner repo. (archived, None, None))\<rparr>"

definition release :: "string \<Rightarrow> string \<Rightarrow> string \<Rightarrow> Release" where
  "release tag title text = \<lparr>GetTagName = tag, GetName = title, GetBody = text\<rparr>"


definition mainDep :: DependencyInfo where
  "mainDep = \<lparr>depName = ''fast_xml'', depCurrentVersion = ''main'',
              depRepoURL = ''https://github.com/processone/fast_xml'',
              depLatestVersion = [], depUpdateNeeded = False, depStatus = []\<rparr>"


definition routine130 :: Release where
  "routine130 = release ''v1.3.0'' ''Release 1.3.0'' ''routine refactor''"

definition fix125 :: Release where
  "fix125 = release ''v1.2.5'' ''Release 1.2.5'' ''Fixes a Vulnerability in parsing''"

text \<open>
  A registry that answers every package with status 404.
\<close>

definition brokenEnv :: Env where
  "brokenEnv =
     \<lparr>fetchNpmInfo = (\<lambda>pkgName. Inl (''npm API returned status 404 for package '' @ pkgName)),
      FormatRFC1123 = FormatRFC1123_in ''UTC'' 0,
      Quote = quotePlain\<rparr>"

text \<open>
  A GitHub that refuses every release query with status 403 and no quota left, and gives
  the reset time in the header.
\<close>

definition limitedClient :: "string \<Rightarrow> Client" where
  "limitedClient reset =
     fixedClient []
       (Some \<lparr>StatusCode = 403, RateLimitRemaining = ''0'', RateLimitReset = reset\<rparr>)
       (Some ''403 API rate limit exceeded'') False"

section \<open>Invalid versions\<close>

lemma Compare_invalid_left: "\<not> IsValid v \<Longrightarrow> Compare v w = (if IsValid w then - 1 else 0)"
  by (auto simp: Compare_def IsValid_def split: option.splits)

lemma Compare_invalid_right: "\<not> IsValid v \<Longrightarrow> Compare w v = (if IsValid w then 1 else 0)"
  by (auto simp: Compare_def IsValid_def split: option.splits)

lemma vmain_invalid: "\<not> IsValid ''vmain''"
  by (simp add: IsValid_def parse_def isDigit_def)

text \<open>
  Claim C2, as the code has it. The comparison is total and has the three results
  \<open>-1\<close>, \<open>0\<close> and \<open>1\<close>: an invalid version is below every valid one and equal to every
  invalid one. In the Erlang program a dependency whose current version (with \<open>v\<close> in
  front) is invalid does not pass the filter of \<open>main\<close>, and the check itself gives it
  the status "Invalid dependency details" without any upstream call.
\<close>

theorem invalid_current_version_rejected:
  assumes "\<not> IsValid (withV (depCurrentVersion dep))"
  shows "checkUpdateAndCreateReport_step client dep
           = (dep\<lparr>depStatus := crossMark @ '' Invalid dependency details''\<rparr>, [])
         \<and> dep \<notin> set (main_filteredDeps deps)
         \<and> Compare (withV (depCurrentVersion dep)) w = (if IsValid w then - 1 else 0)
         \<and> Compare w (withV (depCurrentVersion dep)) = (if IsValid w then 1 else 0)"
  using assms
  by (simp add: checkUpdateAndCreateReport_step_def main_filteredDeps_def
        Compare_invalid_left Compare_invalid_right split: prod.splits)

theorem invalid_current_version_rejected_witness:
  "\<not> IsValid (withV (depCurrentVersion mainDep))
   \<and> checkUpdateAndCreateReport_step
        (fixedClient [release ''1.1.0'' ''1.1.0'' ''notes''] None None False) mainDep
       = (mainDep\<lparr>depStatus := crossMark @ '' Invalid dependency details''\<rparr>, [])
   \<and> mainDep \<notin> set (main_filteredDeps [mainDep])
   \<and> Compare (withV (depCurrentVersion mainDep)) ''v1.1.0'' = - 1"
proof -
  have inv: "\<not> IsValid (withV (depCurrentVersion mainDep))"
    by (simp add: mainDep_def withV_def HasPrefix_def vmain_invalid)
  have val: "IsValid ''v1.1.0''"
    by code_simp
  show ?thesis
    using inv val
      invalid_current_version_rejected [OF inv,
        of "fixedClient [release ''1.1.0'' ''1.1.0'' ''notes''] None None False"
           "[mainDep]" "''v1.1.0''"]
    by simp
qed

text \<open>
  Claim C2 as stated fails in the repository list program: the line
  \<open>acme/widget main\<close> gives the current version \<open>vmain\<close>, which is compared with the
  latest release and reported as older.
\<close>

theorem invalid_version_compared_counterexample:
  "parseLine_fields [''acme/widget'', ''main''] = (''acme'', ''widget'', ''vmain'')
   \<and> \<not> IsValid ''vmain''
   \<and> Compare ''vmain'' ''v1.0.0'' = - 1
   \<and> UpdateNeeded (fst (checkUpdate
        (fixedClient [release ''v1.0.0'' ''One'' ''first''] None None False)
        ''acme'' ''widget'' ''vmain''))
   \<and> Status (fst (checkUpdate
        (fixedClient [release ''v1.0.0'' ''One'' ''first''] None None False)
        ''acme'' ''widget'' ''vmain'')) = cycleMark @ '' Update Recommended''"
  by code_simp


section \<open>Up to date\<close>

text \<open>
  Claim C3, as the code has it. The repository list program and the older npm check
  stop as soon as \<open>semver.Compare(current, latest)\<close> is not negative, that is when the
  latest version is not above the current one or is invalid: the status is "Up to date",
  both flags are false, no release notes are stored, and the only upstream call is the
  one that told the latest version.
\<close>

theorem up_to_date_without_changelog:
  "(ListReleases client owner repo 10 = (latestRelease # others, resp, None)
      \<and> Compare currentVer (withV (GetTagName latestRelease)) \<ge> 0
    \<longrightarrow> checkUpdate client owner repo currentVer
          = (\<lparr>Repo = owner @ ''/'' @ repo, CurrentVersion = currentVer,
               LatestVersion = withV (GetTagName latestRelease), UpdateNeeded = False,
               SecurityPatch = False, ReleaseNotesList = [],
               Status = checkMark @ '' Up to date''\<rparr>,
             [CallListReleases owner repo 10]))
   \<and> (fetchNpmInfo env pkgName = Inr npmInfo
      \<and> Compare (cleanVer raw) (withV (Version npmInfo)) \<ge> 0
    \<longrightarrow> checkNpmUpdate_part001 env client pkgName raw
          = (\<lparr>Repo = pkgName, CurrentVersion = cleanVer raw,
               LatestVersion = withV (Version npmInfo), UpdateNeeded = False,
               SecurityPatch = False, ReleaseNotesList = [],
               Status = checkMark @ '' Up to date''\<rparr>,
             [CallNpmLatest pkgName]))"
  by (simp add: checkUpdate_def checkNpmUpdate_part001_def)

theorem up_to_date_without_changelog_witness:
  "checkUpdate (fixedClient [release ''v2.0.0'' ''Two'' ''security fix''] None None False)
       ''acme'' ''widget'' ''v2.0.0''
     = (\<lparr>Repo = ''acme/widget'', CurrentVersion = ''v2.0.0'', LatestVersion = ''v2.0.0'',
          UpdateNeeded = False, SecurityPatch = False, ReleaseNotesList = [],
          Status = checkMark @ '' Up to date''\<rparr>,
        [CallListReleases ''acme'' ''widget'' 10])
   \<and> checkNpmUpdate_part001 (fixedEnv ''2.0.0'' ''git+https://github.com/acme/widget.git'')
         (fixedClient [release ''v2.0.0'' ''Two'' ''security fix''] None None False)
         ''widget'' ''^2.0.0''
     = (\<lparr>Repo = ''widget'', CurrentVersion = ''v2.0.0'', LatestVersion = ''v2.0.0'',
          UpdateNeeded = False, SecurityPatch = False, ReleaseNotesList = [],
          Status = checkMark @ '' Up to date''\<rparr>,
        [CallNpmLatest ''widget''])"
proof -
  have c: "Compare ''v2.0.0'' ''v2.0.0'' \<ge> 0"
    by code_simp
  have v: "withV ''v2.0.0'' = ''v2.0.0''" "withV ''2.0.0'' = ''v2.0.0''"
    "cleanVer ''^2.0.0'' = ''v2.0.0''"
    by code_simp+
  show ?thesis
    using c v
      up_to_date_without_changelog [of
        "fixedClient [release ''v2.0.0'' ''Two'' ''security fix''] None None False"
        "''acme''" "''widget''" "release ''v2.0.0'' ''Two'' ''security fix''" "[]" None
        "''v2.0.0''" "fixedEnv ''2.0.0'' ''git+https://github.com/acme/widget.git''"
        "''widget''" "\<lparr>Version = ''2.0.0'', RepositoryURL = ''git+https://github.com/acme/widget.git''\<rparr>"
        "''^2.0.0''"]
    by (simp add: fixedClient_def fixedEnv_def release_def)
qed

text \<open>
  Claim C3 as stated fails where only the current version is invalid: \<open>latest\<close> as the
  current version of an npm dependency is reported as older than \<open>1.0.0\<close>, and the
  release notes are fetched.
\<close>

theorem invalid_current_not_up_to_date_counterexample:
  "\<not> IsValid (cleanVer ''latest'')
   \<and> UpdateNeeded (fst (checkNpmUpdate_part001
        (fixedEnv ''1.0.0'' ''git+https://github.com/acme/widget.git'')
        (fixedClient [release ''v1.0.0'' ''One'' ''first''] None None False)
        ''widget'' ''latest''))
   \<and> ReleaseNotesList (fst (checkNpmUpdate_part001
        (fixedEnv ''1.0.0'' ''git+https://github.com/acme/widget.git'')
        (fixedClient [release ''v1.0.0'' ''One'' ''first''] None None False)
        ''widget'' ''latest'')) \<noteq> []
   \<and> snd (checkNpmUpdate_part001
        (fixedEnv ''1.0.0'' ''git+https://github.com/acme/widget.git'')
        (fixedClient [release ''v1.0.0'' ''One'' ''first''] None None False)
        ''widget'' ''latest'')
      = [CallNpmLatest ''widget'', CallGetLatestRelease ''acme'' ''widget'']"
  by code_simp


section \<open>Properties of the changelog excerpt\<close>

lemma Contains_sublist: "Contains s p = sublist p s"
  by (induction s) (auto simp: sublist_Cons_right)

lemma ReplaceAll_single:
  "ReplaceAll s [k] new = concat (map (\<lambda>c. if c = k then new else [c]) s)"
  by (induction s "[k]" new rule: ReplaceAll.induct) auto

lemma set_ReplaceAll: "set (ReplaceAll s old new) \<subseteq> set s \<union> set new"
proof (induction s old new rule: ReplaceAll.induct)
  case (1 old new)
  show ?case by simp
next
  case (2 c cs old new)
  show ?case
  proof (cases "old \<noteq> [] \<and> prefix old (c # cs)")
    case True
    have "set (drop (length old) (c # cs)) \<subseteq> set (c # cs)"
      by (rule set_drop_subset)
    with 2 True show ?thesis by auto
  next
    case False
    with 2 show ?thesis by auto
  qed
qed

lemma ReplaceAll_absent:
  "c \<notin> set s \<Longrightarrow> c \<notin> set new \<Longrightarrow> c \<notin> set (ReplaceAll s old new)"
  using set_ReplaceAll [of s old new] by auto

lemma ReplaceAll_removed: "c \<notin> set new \<Longrightarrow> c \<notin> set (ReplaceAll s [c] new)"
  by (auto simp: ReplaceAll_single)

lemma spaceRunes_no_backslash: "w \<in> set spaceRunes \<Longrightarrow> CHR 0x5C \<notin> set w"
  by (auto simp: spaceRunes_def)

lemma trimLeftSpace_split: "\<exists>a. s = a @ trimLeftSpace s \<and> CHR 0x5C \<notin> set a"
proof (induction s rule: trimLeftSpace.induct)
  case (1 s)
  show ?case
  proof (cases "find (\<lambda>w. prefix w s) spaceRunes")
    case None
    then have "trimLeftSpace s = s"
      by (subst trimLeftSpace.simps) simp
    then show ?thesis by auto
  next
    case (Some w)
    then have w: "w \<in> set spaceRunes" "prefix w s"
      using find_Some_member [of "\<lambda>w. prefix w s" spaceRunes w] by auto
    from 1 [OF Some] obtain a where
      a: "drop (length w) s = a @ trimLeftSpace (drop (length w) s)" "CHR 0x5C \<notin> set a"
      by blast
    from w(2) have "s = w @ drop (length w) s"
      by (auto simp: prefix_def)
    with a have "s = (w @ a) @ trimLeftSpace (drop (length w) s)"
      by simp
    moreover have "trimLeftSpace s = trimLeftSpace (drop (length w) s)"
      using Some by (subst trimLeftSpace.simps) simp
    moreover have "CHR 0x5C \<notin> set (w @ a)"
      using a(2) spaceRunes_no_backslash [OF w(1)] by simp
    ultimately show ?thesis by metis
  qed
qed

lemma trimRightSpace_prefix: "prefix (trimRightSpace s) s"
proof (induction s rule: trimRightSpace.induct)
  case (1 s)
  show ?case
  proof (cases "find (\<lambda>w. suffix w s) spaceRunes")
    case None
    then have "trimRightSpace s = s"
      by (subst trimRightSpace.simps) simp
    then show ?thesis by simp
  next
    case (Some w)
    from 1 [OF Some] have "prefix (trimRightSpace (take (length s - length w) s))
      (take (length s - length w) s)" .
    moreover have "prefix (take (length s - length w) s) s"
      by (rule take_is_prefix)
    moreover have "trimRightSpace s = trimRightSpace (take (length s - length w) s)"
      using Some by (subst trimRightSpace.simps) simp
    ultimately show ?thesis
      by (metis prefix_order.trans)
  qed
qed

lemma TrimSpace_split: "\<exists>a b. s = a @ TrimSpace s @ b \<and> CHR 0x5C \<notin> set a"
proof -
  obtain a where a: "s = a @ trimLeftSpace s" "CHR 0x5C \<notin> set a"
    using trimLeftSpace_split by blast
  obtain b where b: "trimLeftSpace s = TrimSpace s @ b"
    using trimRightSpace_prefix [of "trimLeftSpace s"] by (auto simp: prefix_def TrimSpace_def)
  from a b show ?thesis by metis
qed

lemma TrimSpace_length: "length (TrimSpace s) \<le> length s"
proof -
  obtain a b where "s = a @ TrimSpace s @ b"
    using TrimSpace_split by blast
  then have "length s = length a + length (TrimSpace s) + length b"
    by (metis length_append add.assoc)
  then show ?thesis by simp
qed

lemma TrimSpace_set: "set (TrimSpace s) \<subseteq> set s"
proof -
  obtain a b where "s = a @ TrimSpace s @ b"
    using TrimSpace_split by blast
  then have "set s = set a \<union> set (TrimSpace s) \<union> set b"
    by (metis set_append Un_assoc)
  then show ?thesis by auto
qed

lemma TrimSpace_sublist: "sublist (TrimSpace s) s"
  using TrimSpace_split [of s] by (auto simp: sublist_def)

lemma collapseSpaces_done: "\<not> Contains (collapseSpaces s) ''  ''"
proof (induction s rule: collapseSpaces.induct)
  case (1 body)
  show ?case
  proof (cases "Contains body ''  ''")
    case True
    with 1 show ?thesis by (subst collapseSpaces.simps) simp
  next
    case False
    then show ?thesis by (subst collapseSpaces.simps) simp
  qed
qed

lemma collapseSpaces_set: "set (collapseSpaces s) \<subseteq> set s"
proof (induction s rule: collapseSpaces.induct)
  case (1 body)
  show ?case
  proof (cases "Contains body ''  ''")
    case True
    have "sublist ''  '' body"
      using True by (simp only: Contains_sublist)
    then have "set ''  '' \<subseteq> set body"
      by (rule set_mono_sublist)
    then have "set (ReplaceAll body ''  '' '' '') \<subseteq> set body"
      using set_ReplaceAll [of body "''  ''" "'' ''"] by auto
    with 1 True show ?thesis by (subst collapseSpaces.simps) auto
  next
    case False
    then show ?thesis by (subst collapseSpaces.simps) simp
  qed
qed

lemma escape_pipes: "pipesEscapedAfter p (ReplaceAll s ''|'' [CHR 0x5C, CHR ''|''])"
  by (induction s arbitrary: p) (auto simp: ReplaceAll_single)

lemma escape_prefix_space:
  "prefix '' '' (ReplaceAll s ''|'' [CHR 0x5C, CHR ''|'']) = prefix '' '' s"
  by (cases s) (auto simp: ReplaceAll_single)

lemma escape_no_double_space:
  "Contains (ReplaceAll s ''|'' [CHR 0x5C, CHR ''|'']) ''  '' = Contains s ''  ''"
proof (induction s)
  case Nil
  show ?case by simp
next
  case (Cons c cs)
  have e: "ReplaceAll (c # cs) ''|'' [CHR 0x5C, CHR ''|'']
         = (if c = CHR ''|'' then [CHR 0x5C, CHR ''|''] else [c])
           @ ReplaceAll cs ''|'' [CHR 0x5C, CHR ''|'']"
    by (simp add: ReplaceAll_single)
  show ?case
    using Cons escape_prefix_space [of cs] by (auto simp: e)
qed

lemma pipesEscapedAfter_take: "pipesEscapedAfter p s \<Longrightarrow> pipesEscapedAfter p (take n s)"
  by (induction s arbitrary: p n) (auto simp: take_Cons split: nat.splits)

lemma pipesEscapedAfter_append:
  "pipesEscapedAfter p s \<Longrightarrow> CHR ''|'' \<notin> set t \<Longrightarrow> pipesEscapedAfter p (s @ t)"
proof (induction s arbitrary: p)
  case Nil
  then show ?case by (induction t arbitrary: p) auto
next
  case (Cons c cs)
  then show ?case by auto
qed

lemma pipesEscapedAfter_any:
  "pipesEscapedAfter p s \<Longrightarrow> p \<noteq> CHR 0x5C \<Longrightarrow> pipesEscapedAfter q s"
  by (cases s) auto

lemma pipesEscapedAfter_drop:
  "pipesEscapedAfter p (a @ r) \<Longrightarrow> CHR 0x5C \<notin> set a \<Longrightarrow> p \<noteq> CHR 0x5C
   \<Longrightarrow> pipesEscapedAfter q r"
proof (induction a arbitrary: p)
  case Nil
  then show ?case by (simp add: pipesEscapedAfter_any)
next
  case (Cons x a)
  then show ?case by auto
qed

lemma pipesEscapedAfter_TrimSpace:
  assumes "pipesEscapedAfter (CHR '' '') s"
  shows "pipesEscapedAfter (CHR '' '') (TrimSpace s)"
proof -
  obtain a b where ab: "s = a @ TrimSpace s @ b" "CHR 0x5C \<notin> set a"
    using TrimSpace_split by blast
  have "pipesEscapedAfter (CHR '' '') (a @ (TrimSpace s @ b))"
    using assms ab(1) by simp
  then have "pipesEscapedAfter (CHR '' '') (TrimSpace s @ b)"
    using ab(2) by (rule pipesEscapedAfter_drop) simp
  then have "pipesEscapedAfter (CHR '' '') (take (length (TrimSpace s)) (TrimSpace s @ b))"
    by (rule pipesEscapedAfter_take)
  then show ?thesis by simp
qed

lemma no_double_space_dots: "Contains (s @ ''...'') ''  '' \<Longrightarrow> Contains s ''  ''"
proof (induction s)
  case Nil
  then show ?case by simp
next
  case (Cons c cs)
  then show ?case by (cases cs) auto
qed

lemma no_double_space_sublist:
  "\<not> Contains s ''  '' \<Longrightarrow> sublist r s \<Longrightarrow> \<not> Contains r ''  ''"
  by (auto simp: Contains_sublist dest: sublist_order.order.trans)


lemma ReplaceAll_keeps_out:
  "set s \<inter> G = {} \<Longrightarrow> set new \<inter> G = {} \<Longrightarrow> set (ReplaceAll s old new) \<inter> G = {}"
  using set_ReplaceAll [of s old new] by auto

lemma ReplaceAll_puts_out:
  "set s \<inter> G = {} \<Longrightarrow> set new \<inter> insert c G = {}
   \<Longrightarrow> set (ReplaceAll s [c] new) \<inter> insert c G = {}"
  using set_ReplaceAll [of s "[c]" new] ReplaceAll_removed [of c new s] by auto

lemma collapseSpaces_keeps_out: "set s \<inter> G = {} \<Longrightarrow> set (collapseSpaces s) \<inter> G = {}"
  using collapseSpaces_set [of s] by auto

lemma extractBody_chars:
  assumes "extractBodyFromChangelog notes = Inr b"
  shows "set b \<inter> strippedChars = {}"
proof -
  define b0 where "b0 = TrimSpace (Split notes ''---'' ! 2)"
  define b1 where "b1 = ReplaceAll b0 ''*'' []"
  define b2 where "b2 = ReplaceAll b1 ''**'' []"
  define b3 where "b3 = ReplaceAll b2 ''#'' []"
  define b4 where "b4 = ReplaceAll b3 ''['' []"
  define b5 where "b5 = ReplaceAll b4 '']'' []"
  define b6 where "b6 = ReplaceAll b5 ''('' []"
  define b7 where "b7 = ReplaceAll b6 '')'' []"
  define b8 where "b8 = ReplaceAll b7 [CHR 0x60] []"
  define b9 where "b9 = ReplaceAll b8 [CHR 0x0A] '' ''"
  define b10 where "b10 = ReplaceAll b9 [CHR 0x0D] '' ''"
  define b11 where "b11 = collapseSpaces b10"
  have b: "b = ReplaceAll b11 ''|'' [CHR 0x5C, CHR ''|'']"
    using assms
    by (simp add: extractBodyFromChangelog_def Let_def b0_def b1_def b2_def b3_def b4_def
          b5_def b6_def b7_def b8_def b9_def b10_def b11_def split: if_splits)
  have "set b0 \<inter> {} = {}" by simp
  then have "set b1 \<inter> {CHR ''*''} = {}"
    unfolding b1_def by (rule ReplaceAll_puts_out) simp
  then have "set b2 \<inter> {CHR ''*''} = {}"
    unfolding b2_def by (rule ReplaceAll_keeps_out) simp
  then have "set b3 \<inter> {CHR ''#'', CHR ''*''} = {}"
    unfolding b3_def by (rule ReplaceAll_puts_out) simp
  then have "set b4 \<inter> {CHR ''['', CHR ''#'', CHR ''*''} = {}"
    unfolding b4_def by (rule ReplaceAll_puts_out) simp
  then have "set b5 \<inter> {CHR '']'', CHR ''['', CHR ''#'', CHR ''*''} = {}"
    unfolding b5_def by (rule ReplaceAll_puts_out) simp
  then have "set b6 \<inter> {CHR ''('', CHR '']'', CHR ''['', CHR ''#'', CHR ''*''} = {}"
    unfolding b6_def by (rule ReplaceAll_puts_out) simp
  then have "set b7 \<inter> {CHR '')'', CHR ''('', CHR '']'', CHR ''['', CHR ''#'', CHR ''*''} = {}"
    unfolding b7_def by (rule ReplaceAll_puts_out) simp
  then have "set b8 \<inter> {CHR 0x60, CHR '')'', CHR ''('', CHR '']'', CHR ''['', CHR ''#'',
      CHR ''*''} = {}"
    unfolding b8_def by (rule ReplaceAll_puts_out) simp
  then have "set b9 \<inter> {CHR 0x0A, CHR 0x60, CHR '')'', CHR ''('', CHR '']'', CHR ''['',
      CHR ''#'', CHR ''*''} = {}"
    unfolding b9_def by (rule ReplaceAll_puts_out) simp
  then have "set b10 \<inter> {CHR 0x0D, CHR 0x0A, CHR 0x60, CHR '')'', CHR ''('', CHR '']'',
      CHR ''['', CHR ''#'', CHR ''*''} = {}"
    unfolding b10_def by (rule ReplaceAll_puts_out) simp
  then have "set b11 \<inter> {CHR 0x0D, CHR 0x0A, CHR 0x60, CHR '')'', CHR ''('', CHR '']'',
      CHR ''['', CHR ''#'', CHR ''*''} = {}"
    unfolding b11_def by (rule collapseSpaces_keeps_out)
  then have "set b \<inter> {CHR 0x0D, CHR 0x0A, CHR 0x60, CHR '')'', CHR ''('', CHR '']'',
      CHR ''['', CHR ''#'', CHR ''*''} = {}"
    unfolding b by (rule ReplaceAll_keeps_out) simp
  moreover have "strippedChars = {CHR 0x0D, CHR 0x0A, CHR 0x60, CHR '')'', CHR ''('',
      CHR '']'', CHR ''['', CHR ''#'', CHR ''*''}"
    by (auto simp: strippedChars_def markdownChars_def)
  ultimately show ?thesis by simp
qed

lemma extractBody_shape:
  assumes "extractBodyFromChangelog notes = Inr b"
  shows "pipesEscapedAfter p b \<and> \<not> Contains b ''  ''"
proof -
  obtain x where b: "b = ReplaceAll (collapseSpaces x) ''|'' [CHR 0x5C, CHR ''|'']"
    using assms by (auto simp: extractBodyFromChangelog_def Let_def split: if_splits)
  show ?thesis
    unfolding b by (simp add: escape_pipes escape_no_double_space collapseSpaces_done)
qed

text \<open>
  Claim C6, as the code has it. The excerpt of stored release notes is made from their
  third piece between \<open>---\<close> marks: trimmed, without the markdown characters, with every
  line feed and carriage return turned into a space and runs of spaces collapsed, pipes
  escaped, then cut to 80 bytes with an ellipsis. It has at most 83 bytes, no pipe
  without a backslash before it, none of the stripped characters and no two spaces in a
  row.
\<close>

theorem changelog_excerpt_bounded:
  assumes "changelogSummary notes = Inr excerpt"
  shows "length excerpt \<le> 83
         \<and> noUnescapedPipe excerpt
         \<and> set excerpt \<inter> strippedChars = {}
         \<and> \<not> Contains excerpt ''  ''
         \<and> (\<exists>body. extractBodyFromChangelog notes = Inr body
              \<and> (if 80 < length body then excerpt = TrimSpace (take 80 body) @ ''...''
                  else excerpt = TrimSpace body))"
proof -
  obtain body where body: "extractBodyFromChangelog notes = Inr body"
    and ex: "excerpt = (if 80 < length body then TrimSpace (take 80 body) @ ''...''
                        else TrimSpace body)"
    using assms by (auto simp: changelogSummary_def split: sum.splits if_splits)
  have esc: "pipesEscapedAfter (CHR '' '') body" and nds: "\<not> Contains body ''  ''"
    using extractBody_shape [OF body] by auto
  have chars: "set body \<inter> strippedChars = {}"
    by (rule extractBody_chars [OF body])
  show ?thesis
  proof (cases "80 < length body")
    case True
    let ?t = "TrimSpace (take 80 body)"
    have e: "excerpt = ?t @ ''...''"
      using ex True by simp
    have "length ?t \<le> length (take 80 body)"
      by (rule TrimSpace_length)
    then have len: "length excerpt \<le> 83"
      using e by simp
    have "pipesEscapedAfter (CHR '' '') (take 80 body)"
      using esc by (rule pipesEscapedAfter_take)
    then have "pipesEscapedAfter (CHR '' '') ?t"
      by (rule pipesEscapedAfter_TrimSpace)
    then have pipe: "noUnescapedPipe excerpt"
      unfolding e noUnescapedPipe_def by (rule pipesEscapedAfter_append) simp
    have sub: "sublist ?t body"
      using TrimSpace_sublist [of "take 80 body"] take_is_prefix [of 80 body]
      by (meson prefix_imp_sublist sublist_order.order.trans)
    then have "set ?t \<subseteq> set body"
      by (rule set_mono_sublist)
    then have ch: "set excerpt \<inter> strippedChars = {}"
      using chars e by (auto simp: strippedChars_def markdownChars_def)
    have "\<not> Contains ?t ''  ''"
      using nds sub by (rule no_double_space_sublist)
    then have sp: "\<not> Contains excerpt ''  ''"
      unfolding e using no_double_space_dots by blast
    show ?thesis
      using len pipe ch sp body e True by simp
  next
    case False
    have e: "excerpt = TrimSpace body"
      using ex False by simp
    have len: "length excerpt \<le> 83"
      using TrimSpace_length [of body] False e by simp
    have pipe: "noUnescapedPipe excerpt"
      unfolding e noUnescapedPipe_def using esc by (rule pipesEscapedAfter_TrimSpace)
    have ch: "set excerpt \<inter> strippedChars = {}"
      using chars TrimSpace_set [of body] e by auto
    have sp: "\<not> Contains excerpt ''  ''"
      unfolding e using nds TrimSpace_sublist by (rule no_double_space_sublist)
    show ?thesis
      using len pipe ch sp body e False by simp
  qed
qed


theorem changelog_excerpt_bounded_witness:
  "changelogSummary (latestChangelog
      (release ''v1.3.0'' ''One''
         (''## What *changed*'' @ newline @ newline @ ''- fix [link](http://x) a|b   c''
            @ newline)) ''acme'' ''widget'')
     = Inr (''What changed - fix linkhttp://x a'' @ [CHR 0x5C] @ ''|b c'')
   \<and> length (''What changed - fix linkhttp://x a'' @ [CHR 0x5C] @ ''|b c'') \<le> 83
   \<and> noUnescapedPipe (''What changed - fix linkhttp://x a'' @ [CHR 0x5C] @ ''|b c'')"
proof -
  have h: "changelogSummary (latestChangelog
      (release ''v1.3.0'' ''One''
         (''## What *changed*'' @ newline @ newline @ ''- fix [link](http://x) a|b   c''
            @ newline)) ''acme'' ''widget'')
     = Inr (''What changed - fix linkhttp://x a'' @ [CHR 0x5C] @ ''|b c'')"
    by code_simp
  show ?thesis
    using h changelog_excerpt_bounded [OF h] by simp
qed

text \<open>
  Claim C6 as stated fails for white space other than space, line feed and carriage
  return: a run of two tabs in a release body is still a run of two tabs in the excerpt.
\<close>

theorem tab_run_kept_counterexample:
  "changelogSummary (latestChangelog
      (release ''v1.3.0'' ''One'' [CHR ''a'', CHR 0x09, CHR 0x09, CHR ''b''])
      ''acme'' ''widget'')
     = Inr [CHR ''a'', CHR 0x09, CHR 0x09, CHR ''b'']"
  by code_simp

text \<open>
  Claim C9: there are notes without the mark \<open>---\<close> for which the read of the third
  piece is out of range, so \<open>extractBodyFromChangelog\<close> does not return for every text.
\<close>

theorem extractBody_not_total:
  "\<exists>notes. \<not> Contains notes ''---'' \<and> length (Split notes ''---'') < 3
     \<and> extractBodyFromChangelog notes = Inl (IndexOutOfRange 2 (length (Split notes ''---'')))"
  by (rule exI [of _ "''Warning: nothing here''"]) code_simp


section \<open>Normalising the current version\<close>

lemma TrimFunc_leading: "\<forall>c\<in>set p. f c \<Longrightarrow> TrimFunc (p @ s) f = TrimFunc s f"
  by (simp add: TrimFunc_def dropWhile_append2)

lemma TrimFunc_ends:
  "TrimFunc s f = c # t \<Longrightarrow> \<not> f c" "TrimFunc s f = t @ [c] \<Longrightarrow> \<not> f c"
proof -
  assume a: "TrimFunc s f = c # t"
  define u where "u = dropWhile f s"
  have "set (TrimFunc s f) \<subseteq> set u"
    unfolding TrimFunc_def u_def using set_dropWhileD by fastforce
  have "rev (dropWhile f (rev u)) = c # t"
    using a by (simp add: TrimFunc_def u_def)
  then have "u = (c # t) @ rev (takeWhile f (rev u))"
    by (metis rev_append rev_rev_ident takeWhile_dropWhile_id)
  then have "hd u = c" "u \<noteq> []"
    by (metis append_Cons list.sel(1), metis Nil_is_append_conv list.distinct(1))
  then show "\<not> f c"
    unfolding u_def using hd_dropWhile by metis
next
  assume a: "TrimFunc s f = t @ [c]"
  then have "dropWhile f (rev (dropWhile f s)) = c # rev t"
    by (metis TrimFunc_def rev_append rev_rev_ident rev_singleton_conv append_Cons append_Nil rev.simps(2))
  then show "\<not> f c"
    by (metis hd_dropWhile list.distinct(1) list.sel(1))
qed

text \<open>
  Claim C8, as the code has it. Both npm checks trim the characters \<open>^ ~ = >\<close> from
  both ends of the raw version and put \<open>v\<close> in front unless the rest starts with \<open>v\<close>
  already. So the normalised version starts with \<open>v\<close>, leading characters of that set
  do not change it, and the trimmed text neither starts nor ends with one of them.
\<close>

theorem cleanVer_canonical:
  "HasPrefix (cleanVer raw) ''v''
   \<and> (set p \<subseteq> set rangeChars \<longrightarrow> cleanVer (p @ raw) = cleanVer raw)
   \<and> cleanVer raw = withV (TrimFunc raw (\<lambda>r. r \<in> set rangeChars))
   \<and> (\<forall>c\<in>set rangeChars. \<not> HasPrefix (TrimFunc raw (\<lambda>r. r \<in> set rangeChars)) [c]
         \<and> \<not> HasSuffix (TrimFunc raw (\<lambda>r. r \<in> set rangeChars)) [c])"
proof -
  let ?f = "\<lambda>r. r \<in> set rangeChars"
  have 1: "HasPrefix (cleanVer raw) ''v''"
    by (simp add: cleanVer_def withV_def HasPrefix_def)
  have 2: "cleanVer (p @ raw) = cleanVer raw" if "set p \<subseteq> set rangeChars"
  proof -
    have "\<forall>c\<in>set p. ?f c"
      using that by blast
    then show ?thesis
      by (simp add: cleanVer_def TrimFunc_leading)
  qed
  have 3: "\<not> HasPrefix (TrimFunc raw ?f) [c]" if "c \<in> set rangeChars" for c
    using TrimFunc_ends(1) [of raw ?f c] that by (auto simp: HasPrefix_def prefix_def)
  have 4: "\<not> HasSuffix (TrimFunc raw ?f) [c]" if "c \<in> set rangeChars" for c
    using TrimFunc_ends(2) [of raw ?f _ c] that by (auto simp: HasSuffix_def suffix_def)
  show ?thesis
    using 1 2 3 4 by (simp add: cleanVer_def)
qed

theorem cleanVer_canonical_witness:
  "HasPrefix (cleanVer ''>=1.2.3'') ''v''
   \<and> set ''>='' \<subseteq> set rangeChars
   \<and> cleanVer (''>='' @ ''1.2.3'') = ''v1.2.3''
   \<and> cleanVer ''1.2.3'' = ''v1.2.3''
   \<and> \<not> HasPrefix (TrimFunc ''>=1.2.3'' (\<lambda>r. r \<in> set rangeChars)) ''>''"
proof -
  have s: "set ''>='' \<subseteq> set rangeChars" "CHR ''>'' \<in> set rangeChars"
    by (simp_all add: rangeChars_def)
  have v: "cleanVer ''1.2.3'' = ''v1.2.3''"
    by code_simp
  show ?thesis
    using s v cleanVer_canonical [of "''1.2.3''" "''>=''"]
      cleanVer_canonical [of "''>=1.2.3''" "[]"]
    by (simp add: HasPrefix_def)
qed

text \<open>
  Claim C8 as stated names \<open><\<close> among the stripped characters. The set in the source
  is \<open>^~=>\<close>: a leading \<open><\<close> stays, right after the \<open>v\<close>.
\<close>

theorem less_than_kept_counterexample:
  "cleanVer ''<1.2.3'' = ''v<1.2.3''"
  by code_simp


section \<open>Release tags of monorepos\<close>

lemma Split_from_none: "k \<notin> set s \<Longrightarrow> Split_from [k] acc s = [rev acc @ s]"
  by (induction s arbitrary: acc) auto








section \<open>Security keywords in newer releases\<close>

lemma checkUpdate_loop_current:
  "CurrentVersion (checkUpdate_loop rs info) = CurrentVersion info"
  by (induction rs arbitrary: info) (auto simp: Let_def)

lemma checkUpdate_loop_keeps:
  "SecurityPatch info \<Longrightarrow> SecurityPatch (checkUpdate_loop rs info)"
  by (induction rs arbitrary: info) (auto simp: Let_def)

lemma checkUpdate_loop_finds:
  "r \<in> set rs \<Longrightarrow> Compare (CurrentVersion info) (withV (GetTagName r)) < 0
   \<Longrightarrow> hasSecurityKeyword (releaseText r) \<Longrightarrow> SecurityPatch (checkUpdate_loop rs info)"
proof (induction rs arbitrary: info)
  case Nil
  then show ?case by simp
next
  case (Cons x rs)
  show ?case
  proof (cases "r = x")
    case True
    with Cons.prems show ?thesis
      by (simp add: Let_def checkUpdate_loop_keeps)
  next
    case False
    with Cons.prems have "r \<in> set rs" by simp
    with Cons.prems Cons.IH show ?thesis
      by (simp add: Let_def)
  qed
qed

lemma checkNpmUpdate_loop_keeps:
  "SecurityPatch info \<Longrightarrow> SecurityPatch (fst (checkNpmUpdate_loop owner repo rs (info, found)))"
  by (induction rs arbitrary: info found) (auto simp: Let_def)

lemma checkNpmUpdate_loop_finds:
  "\<forall>x\<in>set pre. Compare (cleanTag (GetTagName x)) (CurrentVersion info) > 0
   \<Longrightarrow> Compare (cleanTag (GetTagName r)) (CurrentVersion info) > 0
   \<Longrightarrow> hasSecurityKeyword (releaseText r)
   \<Longrightarrow> SecurityPatch (fst (checkNpmUpdate_loop owner repo (pre @ r # post) (info, found)))"
proof (induction pre arbitrary: info found)
  case Nil
  then show ?case
    by (simp add: Let_def checkNpmUpdate_loop_keeps)
next
  case (Cons x pre)
  then show ?case
    by (simp add: Let_def)
qed

lemma hasSecurityKeyword_keywords:
  "hasSecurityKeyword (releaseText rel)
     = (\<exists>k\<in>set securityKeywords. Contains (ToLower (GetBody rel @ '' '' @ GetName rel)) k)"
  by (simp add: hasSecurityKeyword_def securityKeywords_def releaseText_def)

lemma checkUpdate_security:
  assumes "ListReleases client owner repo 10 = (latestRelease # others, resp, None)"
    and "Compare cur (withV (GetTagName latestRelease)) < 0"
    and "r \<in> set (latestRelease # others)"
    and "Compare cur (withV (GetTagName r)) < 0"
    and "hasSecurityKeyword (releaseText r)"
  shows "SecurityPatch (fst (checkUpdate client owner repo cur))
         \<and> Status (fst (checkUpdate client owner repo cur))
             = sirenMark @ '' URGENT Update Required (Security Patch!)''"
proof -
  let ?info = "\<lparr>Repo = owner @ ''/'' @ repo, CurrentVersion = cur,
                 LatestVersion = withV (GetTagName latestRelease), UpdateNeeded = True,
                 SecurityPatch = False, ReleaseNotesList = [], Status = []\<rparr>"
  have "SecurityPatch (checkUpdate_loop (latestRelease # others) ?info)"
    using assms(3,4,5) by (intro checkUpdate_loop_finds [of r]) simp_all
  then show ?thesis
    using assms(1,2) by (simp add: checkUpdate_def Let_def)
qed

lemma checkNpmUpdate_security:
  assumes "fetchNpmInfo env pkgName = Inr npmInfo"
    and "Compare (cleanVer raw) (withV (Version npmInfo)) < 0"
    and "parseGitHubRepoURL (RepositoryURL npmInfo) = (owner, repo)"
    and "owner \<noteq> []" and "repo \<noteq> []"
    and "ListReleases client owner repo 30 = (pre @ r # post, resp, None)"
    and "\<not> rateLimited resp"
    and "\<forall>x\<in>set (pre @ [r]). Compare (cleanTag (GetTagName x)) (cleanVer raw) > 0"
    and "hasSecurityKeyword (releaseText r)"
  shows "SecurityPatch (fst (checkNpmUpdate env client pkgName raw))"
proof -
  have loop: "SecurityPatch i'"
    if "checkNpmUpdate_loop owner repo (pre @ r # post) (info, False) = (i', f')"
      and "CurrentVersion info = cleanVer raw" for info i' f'
  proof -
    have "SecurityPatch (fst (checkNpmUpdate_loop owner repo (pre @ r # post) (info, False)))"
      using assms(8,9) that(2) by (intro checkNpmUpdate_loop_finds) simp_all
    then show ?thesis
      using that(1) by simp
  qed
  obtain archived rsp e where g: "GetArchived client owner repo = (archived, rsp, e)"
    by (cases "GetArchived client owner repo") auto
  show ?thesis
    using assms(1-7) g
    by (cases e; cases archived)
       (auto simp: checkNpmUpdate_def checkArchived_def checkReleases_def Let_def
          split: prod.splits dest: loop)
qed

text \<open>
  Claim C1, as the code has it. The test is a substring match of the four keywords on
  the lower-cased text \<open>body + " " + name\<close> of a release. In the repository list program
  a matching release above the current version sets the flag once the first listed
  release is above the current version. In the newer npm check a matching release sets
  the flag when it and all releases listed before it are above the current version
  (the registry tells an update, the repository URL resolves and the releases are
  listed without error).
\<close>

theorem security_flag_from_newer_releases:
  "(ListReleases client owner repo 10 = (latestRelease # others, resp, None)
      \<and> Compare cur (withV (GetTagName latestRelease)) < 0
      \<and> r \<in> set (latestRelease # others)
      \<and> Compare cur (withV (GetTagName r)) < 0
      \<and> hasSecurityKeyword (releaseText r)
    \<longrightarrow> SecurityPatch (fst (checkUpdate client owner repo cur))
        \<and> Status (fst (checkUpdate client owner repo cur))
            = sirenMark @ '' URGENT Update Required (Security Patch!)'')
   \<and> (fetchNpmInfo env pkgName = Inr npmInfo
      \<and> Compare (cleanVer raw) (withV (Version npmInfo)) < 0
      \<and> parseGitHubRepoURL (RepositoryURL npmInfo) = (owner', repo')
      \<and> owner' \<noteq> [] \<and> repo' \<noteq> []
      \<and> ListReleases client' owner' repo' 30 = (pre @ r' # post, resp', None)
      \<and> \<not> rateLimited resp'
      \<and> (\<forall>x\<in>set (pre @ [r']). Compare (cleanTag (GetTagName x)) (cleanVer raw) > 0)
      \<and> hasSecurityKeyword (releaseText r')
    \<longrightarrow> SecurityPatch (fst (checkNpmUpdate env client' pkgName raw)))
   \<and> hasSecurityKeyword (releaseText rel)
       = (\<exists>k\<in>set securityKeywords. Contains (ToLower (GetBody rel @ '' '' @ GetName rel)) k)"
  using checkUpdate_security [of client owner repo latestRelease others resp cur r]
    checkNpmUpdate_security [of env pkgName npmInfo raw owner' repo' client' pre r' post resp']
    hasSecurityKeyword_keywords [of rel]
  by blast

theorem security_flag_from_newer_releases_witness:
  "SecurityPatch (fst (checkUpdate (fixedClient [routine130, fix125] None None False)
      ''acme'' ''widget'' ''v1.2.0''))
   \<and> SecurityPatch (fst (checkNpmUpdate
      (fixedEnv ''1.3.0'' ''git+https://github.com/acme/widget.git'')
      (fixedClient [routine130, fix125] None None False) ''widget'' ''^1.2.0''))
   \<and> hasSecurityKeyword (releaseText fix125)"
proof -
  let ?c = "fixedClient [routine130, fix125] None None False"
  let ?e = "fixedEnv ''1.3.0'' ''git+https://github.com/acme/widget.git''"
  let ?n = "\<lparr>Version = ''1.3.0'', RepositoryURL = ''git+https://github.com/acme/widget.git''\<rparr>"
  have l10: "ListReleases ?c ''acme'' ''widget'' 10 = (routine130 # [fix125], None, None)"
    and l30: "ListReleases ?c ''acme'' ''widget'' 30 = ([routine130] @ fix125 # [], None, None)"
    by (simp_all add: fixedClient_def)
  have n: "fetchNpmInfo ?e ''widget'' = Inr ?n"
    by (simp add: fixedEnv_def)
  have u: "parseGitHubRepoURL ''git+https://github.com/acme/widget.git'' = (''acme'', ''widget'')"
    by code_simp
  have c: "Compare ''v1.2.0'' (withV (GetTagName routine130)) < 0"
    "Compare ''v1.2.0'' (withV (GetTagName fix125)) < 0"
    "Compare (cleanVer ''^1.2.0'') (withV ''1.3.0'') < 0"
    by code_simp+
  have a: "\<forall>x\<in>set ([routine130] @ [fix125]).
             Compare (cleanTag (GetTagName x)) (cleanVer ''^1.2.0'') > 0"
    by code_simp
  have k: "hasSecurityKeyword (releaseText fix125)"
    by code_simp
  have m: "fix125 \<in> set (routine130 # [fix125])" "\<not> rateLimited None"
    by (simp_all add: rateLimited_def)
  show ?thesis
    using l10 l30 n u c a k m
      security_flag_from_newer_releases [of ?c "''acme''" "''widget''" routine130 "[fix125]"
        None "''v1.2.0''" fix125 ?e "''widget''" ?n "''^1.2.0''" "''acme''" "''widget''" ?c
        "[routine130]" fix125 "[]" None fix125]
    by simp
qed

text \<open>
  Claim C1 as stated fails when the first listed release is not above the current
  version: the repository list program reports "Up to date" at once, although a later
  entry of the list is a newer release with a security keyword.
\<close>

theorem security_release_missed_counterexample:
  "Compare ''v1.5.0'' (withV ''v2.0.0'') < 0
   \<and> hasSecurityKeyword (releaseText (release ''v2.0.0'' ''Two'' ''Security fix for CVE-2024-1''))
   \<and> \<not> SecurityPatch (fst (checkUpdate
        (fixedClient [release ''v1.0.5'' ''Backport'' ''minor fix'',
                      release ''v2.0.0'' ''Two'' ''Security fix for CVE-2024-1''] None None False)
        ''acme'' ''widget'' ''v1.5.0''))
   \<and> Status (fst (checkUpdate
        (fixedClient [release ''v1.0.5'' ''Backport'' ''minor fix'',
                      release ''v2.0.0'' ''Two'' ''Security fix for CVE-2024-1''] None None False)
        ''acme'' ''widget'' ''v1.5.0'')) = checkMark @ '' Up to date''"
  by code_simp


section \<open>The final status\<close>

lemma checkNpmUpdate_loop_flags_kept:
  "checkNpmUpdate_loop owner repo rs (info, found) = (info', found')
   \<Longrightarrow> IsArchived info' = IsArchived info \<and> UpdateNeeded info' = UpdateNeeded info
       \<and> LatestVersion info' = LatestVersion info
       \<and> (SecurityPatch info \<longrightarrow> SecurityPatch info')"
proof (induction rs arbitrary: info found)
  case Nil
  then show ?case by simp
next
  case (Cons r rs)
  show ?case
  proof (cases "Compare (cleanTag (GetTagName r)) (CurrentVersion info) \<le> 0")
    case True
    with Cons.prems show ?thesis by simp
  next
    case False
    then show ?thesis
      using Cons.prems
      by (cases found; cases "hasSecurityKeyword (releaseText r)")
         (auto simp: Let_def dest!: Cons.IH)
  qed
qed

lemma checkReleases_flags_kept:
  assumes "checkReleases env client owner repo info = (info', calls)"
  shows "IsArchived info' = IsArchived info \<and> UpdateNeeded info' = UpdateNeeded info"
proof -
  obtain rs resp listErr where l: "ListReleases client owner repo 30 = (rs, resp, listErr)"
    by (cases "ListReleases client owner repo 30") auto
  obtain i f where lp: "checkNpmUpdate_loop owner repo rs (info, False) = (i, f)"
    by (cases "checkNpmUpdate_loop owner repo rs (info, False)") auto
  from checkNpmUpdate_loop_flags_kept [OF lp]
  have k: "IsArchived i = IsArchived info" "UpdateNeeded i = UpdateNeeded info"
    by auto
  show ?thesis
    using assms l lp k
    by (cases "rateLimited resp"; cases listErr; cases f)
       (auto simp: checkReleases_def)
qed

lemma checkArchived_flags:
  "UpdateNeeded (checkArchived client owner repo info) = UpdateNeeded info"
  "SecurityPatch (checkArchived client owner repo info) = SecurityPatch info"
  "ReleaseNotesList (checkArchived client owner repo info) = ReleaseNotesList info"
  "\<not> IsArchived info \<Longrightarrow> IsArchived (checkArchived client owner repo info)
     = (\<exists>resp. GetArchived client owner repo = (True, resp, None))"
  "\<not> IsArchived info \<Longrightarrow> IsArchived (checkArchived client owner repo info)
     \<Longrightarrow> Status (checkArchived client owner repo info) = noEntryMark @ '' DEPRECATED (Archived)''"
  by (auto simp: checkArchived_def split: prod.splits option.splits)

lemma finalStatus_precedence:
  "\<not> (IsArchived info \<and> \<not> UpdateNeeded info)
   \<Longrightarrow> finalStatus info = statusByPrecedence (IsArchived info) (UpdateNeeded info)
         (SecurityPatch info) (changelogUnavailable (ReleaseNotesList info))"
  by (auto simp: finalStatus_def statusByPrecedence_def)

lemma checkNpmUpdate_status:
  assumes run: "checkNpmUpdate env client pkgName raw = (info, calls)"
    and npm: "fetchNpmInfo env pkgName = Inr npmInfo"
    and url: "parseGitHubRepoURL (RepositoryURL npmInfo) = (owner, repo)"
    and res: "owner \<noteq> []" "repo \<noteq> []"
  shows "Status info = statusByPrecedence (IsArchived info) (UpdateNeeded info)
           (SecurityPatch info) (changelogUnavailable (ReleaseNotesList info))
         \<and> IsArchived info = (\<exists>resp. GetArchived client owner repo = (True, resp, None))
         \<and> UpdateNeeded info = (Compare (cleanVer raw) (withV (Version npmInfo)) < 0)"
proof -
  define info2 :: UpdateInfoA where
    "info2 = \<lparr>Repo = pkgName, CurrentVersion = cleanVer raw,
              LatestVersion = withV (Version npmInfo),
              UpdateNeeded = \<not> (Compare (cleanVer raw) (withV (Version npmInfo)) \<ge> 0),
              SecurityPatch = False, ReleaseNotesList = [], Status = [], IsArchived = False\<rparr>"
  define info3 where "info3 = checkArchived client owner repo info2"
  have i2: "\<not> IsArchived info2"
    "UpdateNeeded info2 = (Compare (cleanVer raw) (withV (Version npmInfo)) < 0)"
    by (auto simp: info2_def)
  have i3: "UpdateNeeded info3 = UpdateNeeded info2"
    "IsArchived info3 = (\<exists>resp. GetArchived client owner repo = (True, resp, None))"
    "IsArchived info3 \<Longrightarrow> Status info3 = noEntryMark @ '' DEPRECATED (Archived)''"
    unfolding info3_def using i2(1) by (simp_all add: checkArchived_flags)
  have unfold: "checkNpmUpdate env client pkgName raw =
      (if IsArchived info3 \<and> \<not> UpdateNeeded info3
       then (info3, [CallNpmLatest pkgName, CallGet owner repo])
       else (let (info4, calls) = (if UpdateNeeded info3
                                   then checkReleases env client owner repo info3
                                   else (info3, []))
             in (info4\<lparr>Status := finalStatus info4\<rparr>,
                 [CallNpmLatest pkgName, CallGet owner repo] @ calls)))"
    using npm url res by (simp add: checkNpmUpdate_def Let_def info2_def info3_def)
  show ?thesis
  proof (cases "IsArchived info3 \<and> \<not> UpdateNeeded info3")
    case True
    then have "info = info3"
      using run unfold by simp
    then show ?thesis
      using True i2 i3 by (simp add: statusByPrecedence_def)
  next
    case False
    obtain info4 c4 where r4: "(if UpdateNeeded info3
        then checkReleases env client owner repo info3 else (info3, [])) = (info4, c4)"
      by (cases "if UpdateNeeded info3 then checkReleases env client owner repo info3
                 else (info3, [])") auto
    have k: "IsArchived info4 = IsArchived info3 \<and> UpdateNeeded info4 = UpdateNeeded info3"
    proof (cases "UpdateNeeded info3")
      case True
      then show ?thesis
        using r4 checkReleases_flags_kept [of env client owner repo info3 info4 c4] by simp
    next
      case f: False
      then show ?thesis using r4 by simp
    qed
    have "info = info4\<lparr>Status := finalStatus info4\<rparr>"
      using run unfold False r4 by simp
    moreover have "finalStatus info4 = statusByPrecedence (IsArchived info4)
        (UpdateNeeded info4) (SecurityPatch info4) (changelogUnavailable (ReleaseNotesList info4))"
      using False k by (intro finalStatus_precedence) simp
    ultimately show ?thesis
      using k i2 i3 by simp
  qed
qed

lemma checkNpmUpdate_part001_status:
  assumes run: "checkNpmUpdate_part001 env client pkgName raw = (info, calls)"
    and npm: "fetchNpmInfo env pkgName = Inr npmInfo"
  shows "Status info = statusByPrecedence False (UpdateNeeded info) (SecurityPatch info)
           (changelogUnavailable (ReleaseNotesList info))
         \<and> UpdateNeeded info = (Compare (cleanVer raw) (withV (Version npmInfo)) < 0)"
proof (cases "Compare (cleanVer raw) (withV (Version npmInfo)) \<ge> 0")
  case True
  then show ?thesis
    using run npm
    by (auto simp: checkNpmUpdate_part001_def statusByPrecedence_def)
next
  case False
  obtain owner repo where u: "parseGitHubRepoURL (RepositoryURL npmInfo) = (owner, repo)"
    by (cases "parseGitHubRepoURL (RepositoryURL npmInfo)") auto
  define info2 :: UpdateInfo where
    "info2 = \<lparr>Repo = pkgName, CurrentVersion = cleanVer raw,
              LatestVersion = withV (Version npmInfo), UpdateNeeded = True,
              SecurityPatch = False, ReleaseNotesList = [], Status = []\<rparr>"
  show ?thesis
  proof (cases "owner \<noteq> [] \<and> repo \<noteq> []")
    case True
    obtain info3 c3 where r3: "checkLatestRelease env client owner repo info2 = (info3, c3)"
      by (cases "checkLatestRelease env client owner repo info2") auto
    have k: "UpdateNeeded info3"
      using r3
      by (auto simp: checkLatestRelease_def info2_def Let_def
            split: if_splits prod.splits option.splits)
    have "info = info3\<lparr>Status := finalStatus_part001 info3\<rparr>"
      using run npm False u r3 True
      by (simp add: checkNpmUpdate_part001_def Let_def info2_def)
    then show ?thesis
      using k False by (auto simp: finalStatus_part001_def statusByPrecedence_def)
  next
    case f: False
    then show ?thesis
      using run npm False u
      by (auto simp: checkNpmUpdate_part001_def Let_def finalStatus_part001_def
            statusByPrecedence_def changelogUnavailable_def HasPrefix_def)
  qed
qed

lemma status_texts_differ:
  "sirenMark @ a \<noteq> cycleMark @ b" "noEntryMark @ a \<noteq> cycleMark @ b"
  by (simp_all add: sirenMark_def cycleMark_def noEntryMark_def)

lemma security_not_plain:
  "securityPatch \<Longrightarrow> statusByPrecedence archived updateNeeded securityPatch unavailable
     \<noteq> cycleMark @ '' Update Recommended''"
  by (simp add: statusByPrecedence_def status_texts_differ)

lemma checkNpmUpdate_security_not_plain:
  assumes "SecurityPatch (fst (checkNpmUpdate env client pkgName raw))"
  shows "Status (fst (checkNpmUpdate env client pkgName raw)) \<noteq> cycleMark @ '' Update Recommended''"
proof (cases "fetchNpmInfo env pkgName")
  case (Inl err)
  with assms show ?thesis
    by (simp add: checkNpmUpdate_def)
next
  case (Inr npmInfo)
  obtain owner repo where u: "parseGitHubRepoURL (RepositoryURL npmInfo) = (owner, repo)"
    by (cases "parseGitHubRepoURL (RepositoryURL npmInfo)") auto
  show ?thesis
  proof (cases "owner = [] \<or> repo = []")
    case True
    with assms Inr u show ?thesis
      by (simp add: checkNpmUpdate_def Let_def)
  next
    case False
    obtain info calls where r: "checkNpmUpdate env client pkgName raw = (info, calls)"
      by (cases "checkNpmUpdate env client pkgName raw") auto
    from checkNpmUpdate_status [OF r Inr u] False assms r show ?thesis
      by (simp add: security_not_plain)
  qed
qed

lemma checkNpmUpdate_part001_security_not_plain:
  assumes "SecurityPatch (fst (checkNpmUpdate_part001 env client pkgName raw))"
  shows "Status (fst (checkNpmUpdate_part001 env client pkgName raw))
           \<noteq> cycleMark @ '' Update Recommended''"
proof (cases "fetchNpmInfo env pkgName")
  case (Inl err)
  with assms show ?thesis
    by (simp add: checkNpmUpdate_part001_def)
next
  case (Inr npmInfo)
  obtain info calls where r: "checkNpmUpdate_part001 env client pkgName raw = (info, calls)"
    by (cases "checkNpmUpdate_part001 env client pkgName raw") auto
  from checkNpmUpdate_part001_status [OF r Inr] assms r show ?thesis
    by (simp add: security_not_plain)
qed

lemma checkUpdate_loop_update:
  "UpdateNeeded (checkUpdate_loop rs info) = UpdateNeeded info"
  by (induction rs arbitrary: info) (auto simp: Let_def)

lemma checkUpdate_status:
  assumes "ListReleases client owner repo 10 = (latestRelease # others, resp, None)"
    and "checkUpdate client owner repo cur = (info, calls)"
  shows "Status info = statusByPrecedence False (UpdateNeeded info) (SecurityPatch info) False
         \<and> UpdateNeeded info = (Compare cur (withV (GetTagName latestRelease)) < 0)"
proof (cases "Compare cur (withV (GetTagName latestRelease)) < 0")
  case True
  then show ?thesis
    using assms
    by (auto simp: checkUpdate_def Let_def statusByPrecedence_def checkUpdate_loop_update
          split: if_splits)
next
  case False
  then show ?thesis
    using assms by (auto simp: checkUpdate_def Let_def statusByPrecedence_def)
qed

lemma checkUpdate_security_not_plain:
  assumes "SecurityPatch (fst (checkUpdate client owner repo cur))"
  shows "Status (fst (checkUpdate client owner repo cur)) \<noteq> cycleMark @ '' Update Recommended''"
proof -
  obtain rs resp err where l: "ListReleases client owner repo 10 = (rs, resp, err)"
    by (cases "ListReleases client owner repo 10") auto
  show ?thesis
  proof (cases "err = None \<and> rs \<noteq> []")
    case True
    then obtain latestRelease others where rs: "rs = latestRelease # others"
      by (cases rs) auto
    obtain info calls where r: "checkUpdate client owner repo cur = (info, calls)"
      by (cases "checkUpdate client owner repo cur") auto
    from checkUpdate_status [OF _ r, of latestRelease others resp] l rs True assms r
    show ?thesis
      by (simp add: security_not_plain)
  next
    case False
    then show ?thesis
      using assms l by (cases err; cases rs) (auto simp: checkUpdate_def Let_def)
  qed
qed

text \<open>
  Claim C4, as the code has it. In the newer npm check, when the registry answers and
  the repository URL resolves, the status is the one the precedence gives for the flags
  of the report; the report is archived exactly when the repository query succeeds and
  says so. The older npm check and the repository list program never ask for the
  archived flag: their status is the one the precedence gives with "archived" false. A
  failed registry lookup gives the error status. In all three a report with the security
  flag never has the plain status "Update Recommended".
\<close>

theorem status_follows_precedence:
  "(checkNpmUpdate env client pkgName raw = (info, calls)
      \<and> fetchNpmInfo env pkgName = Inr npmInfo
      \<and> parseGitHubRepoURL (RepositoryURL npmInfo) = (owner, repo)
      \<and> owner \<noteq> [] \<and> repo \<noteq> []
    \<longrightarrow> Status info = statusByPrecedence (IsArchived info) (UpdateNeeded info)
            (SecurityPatch info) (changelogUnavailable (ReleaseNotesList info))
        \<and> IsArchived info = (\<exists>resp. GetArchived client owner repo = (True, resp, None))
        \<and> UpdateNeeded info = (Compare (cleanVer raw) (withV (Version npmInfo)) < 0))
   \<and> (checkNpmUpdate_part001 env client pkgName raw = (info1, calls1)
      \<and> fetchNpmInfo env pkgName = Inr npmInfo
    \<longrightarrow> Status info1 = statusByPrecedence False (UpdateNeeded info1) (SecurityPatch info1)
            (changelogUnavailable (ReleaseNotesList info1))
        \<and> UpdateNeeded info1 = (Compare (cleanVer raw) (withV (Version npmInfo)) < 0))
   \<and> (fetchNpmInfo env pkgName = Inl err
    \<longrightarrow> Status (fst (checkNpmUpdate env client pkgName raw))
          = crossMark @ '' NPM Fetch Error: '' @ err
        \<and> Status (fst (checkNpmUpdate_part001 env client pkgName raw))
          = crossMark @ '' NPM Fetch Error: '' @ err)
   \<and> (SecurityPatch (fst (checkNpmUpdate env client pkgName raw))
    \<longrightarrow> Status (fst (checkNpmUpdate env client pkgName raw))
          \<noteq> cycleMark @ '' Update Recommended'')
   \<and> (SecurityPatch (fst (checkNpmUpdate_part001 env client pkgName raw))
    \<longrightarrow> Status (fst (checkNpmUpdate_part001 env client pkgName raw))
          \<noteq> cycleMark @ '' Update Recommended'')
   \<and> (ListReleases client owner0 repo0 10 = (latestRelease # others, resp0, None)
      \<and> checkUpdate client owner0 repo0 cur = (info0, calls0)
    \<longrightarrow> Status info0 = statusByPrecedence False (UpdateNeeded info0) (SecurityPatch info0) False
        \<and> UpdateNeeded info0 = (Compare cur (withV (GetTagName latestRelease)) < 0))
   \<and> (SecurityPatch (fst (checkUpdate client owner0 repo0 cur))
    \<longrightarrow> Status (fst (checkUpdate client owner0 repo0 cur))
          \<noteq> cycleMark @ '' Update Recommended'')"
proof -
  have e: "Status (fst (checkNpmUpdate env client pkgName raw))
             = crossMark @ '' NPM Fetch Error: '' @ err
           \<and> Status (fst (checkNpmUpdate_part001 env client pkgName raw))
             = crossMark @ '' NPM Fetch Error: '' @ err"
    if "fetchNpmInfo env pkgName = Inl err"
    using that by (simp add: checkNpmUpdate_def checkNpmUpdate_part001_def)
  show ?thesis
    using checkNpmUpdate_status [of env client pkgName raw info calls npmInfo owner repo]
      checkNpmUpdate_part001_status [of env client pkgName raw info1 calls1 npmInfo]
      checkNpmUpdate_security_not_plain [of env client pkgName raw]
      checkNpmUpdate_part001_security_not_plain [of env client pkgName raw] e
      checkUpdate_status [of client owner0 repo0 latestRelease others resp0 cur info0 calls0]
      checkUpdate_security_not_plain [of client owner0 repo0 cur]
    by blast
qed

theorem status_follows_precedence_witness:
  "Status (fst (checkNpmUpdate (fixedEnv ''1.3.0'' ''git+https://github.com/acme/widget.git'')
      (fixedClient [routine130, fix125] None None True) ''widget'' ''1.3.0''))
     = noEntryMark @ '' DEPRECATED (Archived)''
   \<and> Status (fst (checkNpmUpdate (fixedEnv ''1.3.0'' ''git+https://github.com/acme/widget.git'')
      (fixedClient [routine130, fix125] None None False) ''widget'' ''^1.2.0''))
     = sirenMark @ '' URGENT Update Required (Security Patch!)''
   \<and> Status (fst (checkNpmUpdate_part001
      (fixedEnv ''1.3.0'' ''git+https://github.com/acme/widget.git'')
      (fixedClient [routine130, fix125] None None False) ''widget'' ''^1.2.0''))
     = cycleMark @ '' Update Recommended''
   \<and> Status (fst (checkNpmUpdate brokenEnv
      (fixedClient [routine130, fix125] None None False) ''widget'' ''^1.2.0''))
     = crossMark @ '' NPM Fetch Error: npm API returned status 404 for package widget''
   \<and> Status (fst (checkUpdate (fixedClient [routine130, fix125] None None False)
      ''acme'' ''widget'' ''v1.2.0''))
     = sirenMark @ '' URGENT Update Required (Security Patch!)''"
proof -
  let ?e = "fixedEnv ''1.3.0'' ''git+https://github.com/acme/widget.git''"
  let ?n = "\<lparr>Version = ''1.3.0'', RepositoryURL = ''git+https://github.com/acme/widget.git''\<rparr>"
  let ?ca = "fixedClient [routine130, fix125] None None True"
  let ?c = "fixedClient [routine130, fix125] None None False"
  have n: "fetchNpmInfo ?e ''widget'' = Inr ?n"
    by (simp add: fixedEnv_def)
  have u: "parseGitHubRepoURL ''git+https://github.com/acme/widget.git'' = (''acme'', ''widget'')"
    by code_simp
  have b: "fetchNpmInfo brokenEnv ''widget''
             = Inl ''npm API returned status 404 for package widget''"
    by (simp add: brokenEnv_def)
  have r1: "checkNpmUpdate ?e ?ca ''widget'' ''1.3.0''
      = (\<lparr>Repo = ''widget'', CurrentVersion = ''v1.3.0'', LatestVersion = ''v1.3.0'',
           UpdateNeeded = False, SecurityPatch = False, ReleaseNotesList = [],
           Status = noEntryMark @ '' DEPRECATED (Archived)'', IsArchived = True\<rparr>,
         [CallNpmLatest ''widget'', CallGet ''acme'' ''widget''])"
    by code_simp
  have r2: "SecurityPatch (fst (checkNpmUpdate ?e ?c ''widget'' ''^1.2.0''))"
    "UpdateNeeded (fst (checkNpmUpdate ?e ?c ''widget'' ''^1.2.0''))"
    "\<not> IsArchived (fst (checkNpmUpdate ?e ?c ''widget'' ''^1.2.0''))"
    by code_simp+
  have r3: "\<not> SecurityPatch (fst (checkNpmUpdate_part001 ?e ?c ''widget'' ''^1.2.0''))"
    "UpdateNeeded (fst (checkNpmUpdate_part001 ?e ?c ''widget'' ''^1.2.0''))"
    "\<not> changelogUnavailable (ReleaseNotesList (fst (checkNpmUpdate_part001 ?e ?c ''widget'' ''^1.2.0'')))"
    by code_simp+
  have r4: "ListReleases ?c ''acme'' ''widget'' 10 = (routine130 # [fix125], None, None)"
    by (simp add: fixedClient_def)
  have r5: "SecurityPatch (fst (checkUpdate ?c ''acme'' ''widget'' ''v1.2.0''))"
    by code_simp
  show ?thesis
    using n u b r2 r3 r4 r5
      status_follows_precedence [of ?e ?ca "''widget''" "''1.3.0''"
        "fst (checkNpmUpdate ?e ?ca ''widget'' ''1.3.0'')"
        "snd (checkNpmUpdate ?e ?ca ''widget'' ''1.3.0'')" ?n "''acme''" "''widget''"]
      status_follows_precedence [of ?e ?c "''widget''" "''^1.2.0''"
        "fst (checkNpmUpdate ?e ?c ''widget'' ''^1.2.0'')"
        "snd (checkNpmUpdate ?e ?c ''widget'' ''^1.2.0'')" ?n "''acme''" "''widget''"
        "fst (checkNpmUpdate_part001 ?e ?c ''widget'' ''^1.2.0'')"
        "snd (checkNpmUpdate_part001 ?e ?c ''widget'' ''^1.2.0'')"]
      status_follows_precedence [of brokenEnv ?c "''widget''" "''^1.2.0''" _ _ _ _ _ _ _
        "''npm API returned status 404 for package widget''"]
      status_follows_precedence [of _ ?c _ _ _ _ _ _ _ _ _ _ "''acme''" "''widget''"
        routine130 "[fix125]" None "''v1.2.0''"
        "fst (checkUpdate ?c ''acme'' ''widget'' ''v1.2.0'')"
        "snd (checkUpdate ?c ''acme'' ''widget'' ''v1.2.0'')"]
    by (simp add: r1 statusByPrecedence_def)
qed

text \<open>
  Claim C4 as stated fails in the older npm check, which has no archived flag: an
  archived repository pinned to the latest version is reported "Up to date", and the
  only upstream call is the registry lookup.
\<close>

theorem archived_not_reported_counterexample:
  "GetArchived (fixedClient [routine130, fix125] None None True) ''acme'' ''widget''
     = (True, None, None)
   \<and> checkNpmUpdate_part001 (fixedEnv ''1.3.0'' ''git+https://github.com/acme/widget.git'')
        (fixedClient [routine130, fix125] None None True) ''widget'' ''1.3.0''
     = (\<lparr>Repo = ''widget'', CurrentVersion = ''v1.3.0'', LatestVersion = ''v1.3.0'',
          UpdateNeeded = False, SecurityPatch = False, ReleaseNotesList = [],
          Status = checkMark @ '' Up to date''\<rparr>,
        [CallNpmLatest ''widget''])"
  by code_simp


section \<open>Rate limits\<close>

lemma rateLimitMessage_unavailable:
  "changelogUnavailable [rateLimitMessage t owner repo]"
  by (simp add: changelogUnavailable_def rateLimitMessage_def HasPrefix_def)

lemma checkReleases_rate_limited:
  assumes "ListReleases client owner repo 30 = (rs, Some r, err)"
    and "StatusCode r = 403" and "Contains (RateLimitRemaining r) ''0''"
  shows "checkReleases env client owner repo info
           = (info\<lparr>ReleaseNotesList := ReleaseNotesList info
                @ [rateLimitMessage (FormatRFC1123 env (fst (ParseInt (RateLimitReset r))))
                     owner repo]\<rparr>,
              [CallListReleases owner repo 30])"
  using assms by (simp add: checkReleases_def rateLimited_def resetHeader_def)

lemma checkNpmUpdate_rate_limited:
  assumes npm: "fetchNpmInfo env pkgName = Inr npmInfo"
    and upd: "Compare (cleanVer raw) (withV (Version npmInfo)) < 0"
    and url: "parseGitHubRepoURL (RepositoryURL npmInfo) = (owner, repo)"
    and res: "owner \<noteq> []" "repo \<noteq> []"
    and lst: "ListReleases client owner repo 30 = (rs, Some r, err)"
    and lim: "StatusCode r = 403" "Contains (RateLimitRemaining r) ''0''"
    and run: "checkNpmUpdate env client pkgName raw = (info, calls)"
  shows "ReleaseNotesList info
           = [rateLimitMessage (FormatRFC1123 env (fst (ParseInt (RateLimitReset r)))) owner repo]
         \<and> UpdateNeeded info \<and> \<not> SecurityPatch info
         \<and> Status info = (if IsArchived info then noEntryMark @ '' DEPRECATED (Update Needed)''
                          else cycleMark @ '' Update Recommended (Changelog unavailable)'')
         \<and> calls = [CallNpmLatest pkgName, CallGet owner repo, CallListReleases owner repo 30]"
proof -
  define info2 :: UpdateInfoA where
    "info2 = \<lparr>Repo = pkgName, CurrentVersion = cleanVer raw,
              LatestVersion = withV (Version npmInfo), UpdateNeeded = True,
              SecurityPatch = False, ReleaseNotesList = [], Status = [], IsArchived = False\<rparr>"
  define info3 where "info3 = checkArchived client owner repo info2"
  have i3: "UpdateNeeded info3" "\<not> SecurityPatch info3" "ReleaseNotesList info3 = []"
    unfolding info3_def by (simp_all add: checkArchived_flags info2_def)
  have "checkNpmUpdate env client pkgName raw =
      (case checkReleases env client owner repo info3 of
         (info4, calls) \<Rightarrow> (info4\<lparr>Status := finalStatus info4\<rparr>,
            [CallNpmLatest pkgName, CallGet owner repo] @ calls))"
    using npm upd url res i3(1)
    by (simp add: checkNpmUpdate_def Let_def info2_def info3_def not_le checkArchived_flags)
  then have "info = (info3\<lparr>ReleaseNotesList :=
        [rateLimitMessage (FormatRFC1123 env (fst (ParseInt (RateLimitReset r)))) owner repo]\<rparr>)
          \<lparr>Status := finalStatus (info3\<lparr>ReleaseNotesList :=
        [rateLimitMessage (FormatRFC1123 env (fst (ParseInt (RateLimitReset r)))) owner repo]\<rparr>)\<rparr>"
    and "calls = [CallNpmLatest pkgName, CallGet owner repo, CallListReleases owner repo 30]"
    using run checkReleases_rate_limited [OF lst lim, of env info3] i3(3) by simp_all
  then show ?thesis
    using i3 by (simp add: finalStatus_def rateLimitMessage_unavailable)
qed

lemma checkLatestRelease_rate_limited:
  assumes "GetLatestRelease client owner repo = (rel, Some r, err)"
    and "StatusCode r = 403" and "Contains (RateLimitRemaining r) ''0''"
  shows "checkLatestRelease env client owner repo info
           = (info\<lparr>ReleaseNotesList := ReleaseNotesList info
                @ [case ParseInt (RateLimitReset r) of
                     (resetTimeInt, None) \<Rightarrow>
                       rateLimitMessage (FormatRFC1123 env resetTimeInt) owner repo
                   | (resetTimeInt, Some e) \<Rightarrow>
                       crossMark @ '' GitHub Rate Limit Exceeded. (Error parsing time: ''
                         @ numErrorText env (RateLimitReset r) e
                         @ '') (Repo: '' @ owner @ ''/'' @ repo @ '')'']\<rparr>,
              [CallGetLatestRelease owner repo])"
  using assms
  by (simp add: checkLatestRelease_def rateLimited_def resetHeader_def
        split: prod.splits option.splits)

lemma checkNpmUpdate_part001_rate_limited:
  assumes npm: "fetchNpmInfo env pkgName = Inr npmInfo"
    and upd: "Compare (cleanVer raw) (withV (Version npmInfo)) < 0"
    and url: "parseGitHubRepoURL (RepositoryURL npmInfo) = (owner, repo)"
    and res: "owner \<noteq> []" "repo \<noteq> []"
    and lst: "GetLatestRelease client owner repo = (rel, Some r, err)"
    and lim: "StatusCode r = 403" "Contains (RateLimitRemaining r) ''0''"
    and run: "checkNpmUpdate_part001 env client pkgName raw = (info, calls)"
  shows "ReleaseNotesList info
           = [case ParseInt (RateLimitReset r) of
                (resetTimeInt, None) \<Rightarrow>
                  rateLimitMessage (FormatRFC1123 env resetTimeInt) owner repo
              | (resetTimeInt, Some e) \<Rightarrow>
                  crossMark @ '' GitHub Rate Limit Exceeded. (Error parsing time: ''
                    @ numErrorText env (RateLimitReset r) e
                    @ '') (Repo: '' @ owner @ ''/'' @ repo @ '')'']
         \<and> UpdateNeeded info \<and> \<not> SecurityPatch info
         \<and> Status info = cycleMark @ '' Update Recommended (Changelog unavailable)''
         \<and> calls = [CallNpmLatest pkgName, CallGetLatestRelease owner repo]"
proof -
  define msg where
    "msg = (case ParseInt (RateLimitReset r) of
                (resetTimeInt, None) \<Rightarrow>
                  rateLimitMessage (FormatRFC1123 env resetTimeInt) owner repo
              | (resetTimeInt, Some e) \<Rightarrow>
                  crossMark @ '' GitHub Rate Limit Exceeded. (Error parsing time: ''
                    @ numErrorText env (RateLimitReset r) e
                    @ '') (Repo: '' @ owner @ ''/'' @ repo @ '')'')"
  have u: "changelogUnavailable [msg]"
    by (simp add: msg_def changelogUnavailable_def rateLimitMessage_def HasPrefix_def
          split: prod.splits option.splits)
  have l: "checkLatestRelease env client owner repo info0
             = (info0\<lparr>ReleaseNotesList := ReleaseNotesList info0 @ [msg]\<rparr>,
                [CallGetLatestRelease owner repo])" for info0
    unfolding msg_def by (rule checkLatestRelease_rate_limited [OF lst lim])
  have "ReleaseNotesList info = [msg]
         \<and> UpdateNeeded info \<and> \<not> SecurityPatch info
         \<and> Status info = cycleMark @ '' Update Recommended (Changelog unavailable)''
         \<and> calls = [CallNpmLatest pkgName, CallGetLatestRelease owner repo]"
    using npm upd url res run u
    by (auto simp: checkNpmUpdate_part001_def Let_def not_le finalStatus_part001_def l)
  then show ?thesis
    unfolding msg_def .
qed


lemma not_rateLimited:
  "(case resp of None \<Rightarrow> True | Some x \<Rightarrow> StatusCode x \<noteq> 403) \<Longrightarrow> \<not> rateLimited resp"
  by (cases resp) (auto simp: rateLimited_def)

lemma rate_limit_prefix:
  "HasPrefix (rateLimitMessage t owner repo) (crossMark @ '' GitHub Rate Limit Exceeded.'')"
  "HasPrefix (crossMark @ '' GitHub Rate Limit Exceeded. (Error parsing time: '' @ rest)
     (crossMark @ '' GitHub Rate Limit Exceeded.'')"
  "HasPrefix w ''Warning:'' \<Longrightarrow> \<not> HasPrefix w (crossMark @ '' GitHub Rate Limit Exceeded.'')"
  by (auto simp: rateLimitMessage_def HasPrefix_def crossMark_def prefix_def)

lemma checkReleases_generic_failure:
  assumes "ListReleases client owner repo 30 = (rs, resp, Some err)"
    and "case resp of None \<Rightarrow> True | Some x \<Rightarrow> StatusCode x \<noteq> 403"
  shows "checkReleases env client owner repo info
           = (info\<lparr>ReleaseNotesList := ReleaseNotesList info
                @ [''Warning: Could not list releases from GitHub ('' @ owner @ ''/'' @ repo
                   @ ''). Error: '' @ err]\<rparr>,
              [CallListReleases owner repo 30])"
  using assms(1) not_rateLimited [OF assms(2)] by (simp add: checkReleases_def)

lemma checkNpmUpdate_generic_failure:
  assumes npm: "fetchNpmInfo env pkgName = Inr npmInfo"
    and upd: "Compare (cleanVer raw) (withV (Version npmInfo)) < 0"
    and url: "parseGitHubRepoURL (RepositoryURL npmInfo) = (owner, repo)"
    and res: "owner \<noteq> []" "repo \<noteq> []"
    and lst: "ListReleases client owner repo 30 = (rs, resp, Some err)"
    and gen: "case resp of None \<Rightarrow> True | Some x \<Rightarrow> StatusCode x \<noteq> 403"
    and run: "checkNpmUpdate env client pkgName raw = (info, calls)"
  shows "ReleaseNotesList info
           = [''Warning: Could not list releases from GitHub ('' @ owner @ ''/'' @ repo
              @ ''). Error: '' @ err]
         \<and> calls = [CallNpmLatest pkgName, CallGet owner repo, CallListReleases owner repo 30]"
proof -
  define info2 :: UpdateInfoA where
    "info2 = \<lparr>Repo = pkgName, CurrentVersion = cleanVer raw,
              LatestVersion = withV (Version npmInfo), UpdateNeeded = True,
              SecurityPatch = False, ReleaseNotesList = [], Status = [], IsArchived = False\<rparr>"
  define info3 where "info3 = checkArchived client owner repo info2"
  have i3: "UpdateNeeded info3" "ReleaseNotesList info3 = []"
    unfolding info3_def by (simp_all add: checkArchived_flags info2_def)
  have "checkNpmUpdate env client pkgName raw =
      (case checkReleases env client owner repo info3 of
         (info4, calls) \<Rightarrow> (info4\<lparr>Status := finalStatus info4\<rparr>,
            [CallNpmLatest pkgName, CallGet owner repo] @ calls))"
    using npm upd url res i3(1)
    by (simp add: checkNpmUpdate_def Let_def info2_def info3_def not_le checkArchived_flags)
  then show ?thesis
    using run checkReleases_generic_failure [OF lst gen, of env info3] i3(2) by auto
qed

lemma checkLatestRelease_generic_failure:
  assumes "GetLatestRelease client owner repo = (rel, resp, Some err)"
    and "case resp of None \<Rightarrow> True | Some x \<Rightarrow> StatusCode x \<noteq> 403"
    and "ReleaseNotesList info = []"
  shows "\<exists>w. checkLatestRelease env client owner repo info
            = (info\<lparr>ReleaseNotesList := [w]\<rparr>,
               CallGetLatestRelease owner repo
                 # (if Contains err ''404 Not Found'' then [CallListTags owner repo 10] else []))
          \<and> HasPrefix w ''Warning:''"
proof (cases "Contains err ''404 Not Found''")
  case True
  obtain tags resp2 tagListErr where t: "ListTags client owner repo 10 = (tags, resp2, tagListErr)"
    by (cases "ListTags client owner repo 10") auto
  show ?thesis
    using assms(1,3) not_rateLimited [OF assms(2)] True t
    by (cases rel; cases "if tagListErr = None then findTag tags (LatestVersion info) else None")
       (auto simp: checkLatestRelease_def Let_def HasPrefix_def)
next
  case False
  then show ?thesis
    using assms(1,3) not_rateLimited [OF assms(2)]
    by (cases rel) (auto simp: checkLatestRelease_def HasPrefix_def)
qed

lemma checkNpmUpdate_part001_generic_failure:
  assumes npm: "fetchNpmInfo env pkgName = Inr npmInfo"
    and upd: "Compare (cleanVer raw) (withV (Version npmInfo)) < 0"
    and url: "parseGitHubRepoURL (RepositoryURL npmInfo) = (owner, repo)"
    and res: "owner \<noteq> []" "repo \<noteq> []"
    and lst: "GetLatestRelease client owner repo = (rel, resp, Some err)"
    and gen: "case resp of None \<Rightarrow> True | Some x \<Rightarrow> StatusCode x \<noteq> 403"
    and run: "checkNpmUpdate_part001 env client pkgName raw = (info, calls)"
  shows "(\<exists>w. ReleaseNotesList info = [w] \<and> HasPrefix w ''Warning:''
            \<and> \<not> HasPrefix w (crossMark @ '' GitHub Rate Limit Exceeded.''))
         \<and> calls = CallNpmLatest pkgName # CallGetLatestRelease owner repo
             # (if Contains err ''404 Not Found'' then [CallListTags owner repo 10] else [])"
proof -
  define info2 :: UpdateInfo where
    "info2 = \<lparr>Repo = pkgName, CurrentVersion = cleanVer raw,
              LatestVersion = withV (Version npmInfo), UpdateNeeded = True,
              SecurityPatch = False, ReleaseNotesList = [], Status = []\<rparr>"
  have "ReleaseNotesList info2 = []"
    by (simp add: info2_def)
  from checkLatestRelease_generic_failure [OF lst gen this, of env]
  obtain w where w: "checkLatestRelease env client owner repo info2
            = (info2\<lparr>ReleaseNotesList := [w]\<rparr>,
               CallGetLatestRelease owner repo
                 # (if Contains err ''404 Not Found'' then [CallListTags owner repo 10] else []))"
    "HasPrefix w ''Warning:''"
    by blast
  have "checkNpmUpdate_part001 env client pkgName raw =
      (case checkLatestRelease env client owner repo info2 of
         (info3, calls) \<Rightarrow> (info3\<lparr>Status := finalStatus_part001 info3\<rparr>,
            CallNpmLatest pkgName # calls))"
    using npm upd url res
    by (simp add: checkNpmUpdate_part001_def Let_def info2_def not_le)
  then have "ReleaseNotesList info = [w]"
    and "calls = CallNpmLatest pkgName # CallGetLatestRelease owner repo
             # (if Contains err ''404 Not Found'' then [CallListTags owner repo 10] else [])"
    using run w(1) by auto
  then show ?thesis
    using w(2) rate_limit_prefix(3) [OF w(2)] by blast
qed

text \<open>
  Claim C5, as the code has it. When the release query of an npm check comes back with
  status 403 and the remaining-quota header \<open>0\<close>, the report gets one note that
  starts, after the cross mark, with "GitHub Rate Limit Exceeded" and not with "Warning:",
  and that holds the reset time of the header, read as seconds since 1970 and rendered on
  the RFC 1123 layout in the zone of the machine (the older check reports the parsing
  error for a header that is no number, the newer one reads such a header as 0). The
  check returns its report: update needed, no security patch, status "Update Recommended
  (Changelog unavailable)", or "DEPRECATED (Update Needed)" for an archived repository.
  The release query is made once.

  A release query that fails with no response at all, or with a response of another
  status than 403, is told apart from that: its one note starts with "Warning:" and not
  with "GitHub Rate Limit Exceeded". The release query is made once there too; the older
  check goes on to list the tags when the error reads 404 Not Found. Nothing is said here
  of a response with status 403 whose remaining-quota header is another text than
  \<open>0\<close>.
\<close>

theorem rate_limit_reported:
  assumes "fetchNpmInfo env pkgName = Inr npmInfo"
    and "Compare (cleanVer raw) (withV (Version npmInfo)) < 0"
    and "parseGitHubRepoURL (RepositoryURL npmInfo) = (owner, repo)"
    and "owner \<noteq> []" and "repo \<noteq> []"
  shows
   "(ListReleases client owner repo 30 = (rs, Some r, err)
      \<and> StatusCode r = 403 \<and> RateLimitRemaining r = ''0''
      \<and> checkNpmUpdate env client pkgName raw = (info, calls)
    \<longrightarrow> ReleaseNotesList info
          = [rateLimitMessage (FormatRFC1123 env (fst (ParseInt (RateLimitReset r)))) owner repo]
        \<and> HasPrefix (hd (ReleaseNotesList info)) (crossMark @ '' GitHub Rate Limit Exceeded.'')
        \<and> \<not> HasPrefix (hd (ReleaseNotesList info)) ''Warning:''
        \<and> UpdateNeeded info \<and> \<not> SecurityPatch info
        \<and> Status info = (if IsArchived info then noEntryMark @ '' DEPRECATED (Update Needed)''
                         else cycleMark @ '' Update Recommended (Changelog unavailable)'')
        \<and> calls = [CallNpmLatest pkgName, CallGet owner repo, CallListReleases owner repo 30])
   \<and> (ListReleases client owner repo 30 = (rs, resp, Some e)
      \<and> (case resp of None \<Rightarrow> True | Some x \<Rightarrow> StatusCode x \<noteq> 403)
      \<and> checkNpmUpdate env client pkgName raw = (info, calls)
    \<longrightarrow> ReleaseNotesList info
          = [''Warning: Could not list releases from GitHub ('' @ owner @ ''/'' @ repo
             @ ''). Error: '' @ e]
        \<and> HasPrefix (hd (ReleaseNotesList info)) ''Warning:''
        \<and> \<not> HasPrefix (hd (ReleaseNotesList info)) (crossMark @ '' GitHub Rate Limit Exceeded.'')
        \<and> calls = [CallNpmLatest pkgName, CallGet owner repo, CallListReleases owner repo 30])
   \<and> (GetLatestRelease client1 owner repo = (rel, Some r1, err1)
      \<and> StatusCode r1 = 403 \<and> RateLimitRemaining r1 = ''0''
      \<and> checkNpmUpdate_part001 env client1 pkgName raw = (info1, calls1)
    \<longrightarrow> ReleaseNotesList info1
          = [case ParseInt (RateLimitReset r1) of
               (resetTimeInt, None) \<Rightarrow>
                 rateLimitMessage (FormatRFC1123 env resetTimeInt) owner repo
             | (resetTimeInt, Some e) \<Rightarrow>
                 crossMark @ '' GitHub Rate Limit Exceeded. (Error parsing time: ''
                   @ numErrorText env (RateLimitReset r1) e
                   @ '') (Repo: '' @ owner @ ''/'' @ repo @ '')'']
        \<and> HasPrefix (hd (ReleaseNotesList info1)) (crossMark @ '' GitHub Rate Limit Exceeded.'')
        \<and> \<not> HasPrefix (hd (ReleaseNotesList info1)) ''Warning:''
        \<and> UpdateNeeded info1 \<and> \<not> SecurityPatch info1
        \<and> Status info1 = cycleMark @ '' Update Recommended (Changelog unavailable)''
        \<and> calls1 = [CallNpmLatest pkgName, CallGetLatestRelease owner repo])
   \<and> (GetLatestRelease client1 owner repo = (rel, resp1, Some e1)
      \<and> (case resp1 of None \<Rightarrow> True | Some x \<Rightarrow> StatusCode x \<noteq> 403)
      \<and> checkNpmUpdate_part001 env client1 pkgName raw = (info1, calls1)
    \<longrightarrow> (\<exists>w. ReleaseNotesList info1 = [w] \<and> HasPrefix w ''Warning:''
            \<and> \<not> HasPrefix w (crossMark @ '' GitHub Rate Limit Exceeded.''))
        \<and> calls1 = CallNpmLatest pkgName # CallGetLatestRelease owner repo
            # (if Contains e1 ''404 Not Found'' then [CallListTags owner repo 10] else []))"
proof -
  have z: "RateLimitRemaining x = ''0'' \<Longrightarrow> Contains (RateLimitRemaining x) ''0''" for x
    by simp
  have p: "HasPrefix (case ParseInt (RateLimitReset r1) of
               (resetTimeInt, None) \<Rightarrow>
                 rateLimitMessage (FormatRFC1123 env resetTimeInt) owner repo
             | (resetTimeInt, Some e) \<Rightarrow>
                 crossMark @ '' GitHub Rate Limit Exceeded. (Error parsing time: ''
                   @ numErrorText env (RateLimitReset r1) e
                   @ '') (Repo: '' @ owner @ ''/'' @ repo @ '')'')
             (crossMark @ '' GitHub Rate Limit Exceeded.'')"
    by (auto simp: rateLimitMessage_def HasPrefix_def crossMark_def split: prod.splits option.splits)
  have a: "ListReleases client owner repo 30 = (rs, Some r, err)
      \<and> StatusCode r = 403 \<and> RateLimitRemaining r = ''0''
      \<and> checkNpmUpdate env client pkgName raw = (info, calls)
    \<longrightarrow> ReleaseNotesList info
          = [rateLimitMessage (FormatRFC1123 env (fst (ParseInt (RateLimitReset r)))) owner repo]
        \<and> HasPrefix (hd (ReleaseNotesList info)) (crossMark @ '' GitHub Rate Limit Exceeded.'')
        \<and> \<not> HasPrefix (hd (ReleaseNotesList info)) ''Warning:''
        \<and> UpdateNeeded info \<and> \<not> SecurityPatch info
        \<and> Status info = (if IsArchived info then noEntryMark @ '' DEPRECATED (Update Needed)''
                         else cycleMark @ '' Update Recommended (Changelog unavailable)'')
        \<and> calls = [CallNpmLatest pkgName, CallGet owner repo, CallListReleases owner repo 30]"
    using checkNpmUpdate_rate_limited [OF assms, of client rs r err info calls] z [of r]
      rate_limit_prefix(1) rate_limit_prefix(3)
    by (metis list.sel(1))
  have b: "ListReleases client owner repo 30 = (rs, resp, Some e)
      \<and> (case resp of None \<Rightarrow> True | Some x \<Rightarrow> StatusCode x \<noteq> 403)
      \<and> checkNpmUpdate env client pkgName raw = (info, calls)
    \<longrightarrow> ReleaseNotesList info
          = [''Warning: Could not list releases from GitHub ('' @ owner @ ''/'' @ repo
             @ ''). Error: '' @ e]
        \<and> HasPrefix (hd (ReleaseNotesList info)) ''Warning:''
        \<and> \<not> HasPrefix (hd (ReleaseNotesList info)) (crossMark @ '' GitHub Rate Limit Exceeded.'')
        \<and> calls = [CallNpmLatest pkgName, CallGet owner repo, CallListReleases owner repo 30]"
    using checkNpmUpdate_generic_failure [OF assms, of client rs resp e info calls]
    by (auto simp: HasPrefix_def crossMark_def)
  have c: "GetLatestRelease client1 owner repo = (rel, Some r1, err1)
      \<and> StatusCode r1 = 403 \<and> RateLimitRemaining r1 = ''0''
      \<and> checkNpmUpdate_part001 env client1 pkgName raw = (info1, calls1)
    \<longrightarrow> ReleaseNotesList info1
          = [case ParseInt (RateLimitReset r1) of
               (resetTimeInt, None) \<Rightarrow>
                 rateLimitMessage (FormatRFC1123 env resetTimeInt) owner repo
             | (resetTimeInt, Some e) \<Rightarrow>
                 crossMark @ '' GitHub Rate Limit Exceeded. (Error parsing time: ''
                   @ numErrorText env (RateLimitReset r1) e
                   @ '') (Repo: '' @ owner @ ''/'' @ repo @ '')'']
        \<and> HasPrefix (hd (ReleaseNotesList info1)) (crossMark @ '' GitHub Rate Limit Exceeded.'')
        \<and> \<not> HasPrefix (hd (ReleaseNotesList info1)) ''Warning:''
        \<and> UpdateNeeded info1 \<and> \<not> SecurityPatch info1
        \<and> Status info1 = cycleMark @ '' Update Recommended (Changelog unavailable)''
        \<and> calls1 = [CallNpmLatest pkgName, CallGetLatestRelease owner repo]"
    using checkNpmUpdate_part001_rate_limited [OF assms, of client1 rel r1 err1 info1 calls1]
      z [of r1] p rate_limit_prefix(3)
    by (metis list.sel(1))
  have d: "GetLatestRelease client1 owner repo = (rel, resp1, Some e1)
      \<and> (case resp1 of None \<Rightarrow> True | Some x \<Rightarrow> StatusCode x \<noteq> 403)
      \<and> checkNpmUpdate_part001 env client1 pkgName raw = (info1, calls1)
    \<longrightarrow> (\<exists>w. ReleaseNotesList info1 = [w] \<and> HasPrefix w ''Warning:''
            \<and> \<not> HasPrefix w (crossMark @ '' GitHub Rate Limit Exceeded.''))
        \<and> calls1 = CallNpmLatest pkgName # CallGetLatestRelease owner repo
            # (if Contains e1 ''404 Not Found'' then [CallListTags owner repo 10] else [])"
    using checkNpmUpdate_part001_generic_failure [OF assms, of client1 rel resp1 e1 info1 calls1]
    by blast
  from a b c d show ?thesis
    by (intro conjI)
qed

theorem rate_limit_reported_witness:
  "checkNpmUpdate (fixedEnv ''1.3.0'' ''git+https://github.com/acme/widget.git'')
       (limitedClient ''1704067200'') ''widget'' ''1.0.0''
     = (\<lparr>Repo = ''widget'', CurrentVersion = ''v1.0.0'', LatestVersion = ''v1.3.0'',
          UpdateNeeded = True, SecurityPatch = False,
          ReleaseNotesList = [crossMark
            @ '' GitHub Rate Limit Exceeded. Try again after Mon, 01 Jan 2024 00:00:00 UTC. (Repo: acme/widget)''],
          Status = cycleMark @ '' Update Recommended (Changelog unavailable)'',
          IsArchived = False\<rparr>,
        [CallNpmLatest ''widget'', CallGet ''acme'' ''widget'',
         CallListReleases ''acme'' ''widget'' 30])
   \<and> ReleaseNotesList (fst (checkNpmUpdate_part001
        (fixedEnv ''1.3.0'' ''git+https://github.com/acme/widget.git'')
        (limitedClient ''1704067200'') ''widget'' ''1.0.0''))
     = [rateLimitMessage ''Mon, 01 Jan 2024 00:00:00 UTC'' ''acme'' ''widget'']
   \<and> snd (checkNpmUpdate_part001
        (fixedEnv ''1.3.0'' ''git+https://github.com/acme/widget.git'')
        (limitedClient ''1704067200'') ''widget'' ''1.0.0'')
     = [CallNpmLatest ''widget'', CallGetLatestRelease ''acme'' ''widget'']
   \<and> checkNpmUpdate (fixedEnv ''1.3.0'' ''git+https://github.com/acme/widget.git'')
       (fixedClient []
          (Some \<lparr>StatusCode = 500, RateLimitRemaining = ''4990'', RateLimitReset = ''1704067200''\<rparr>)
          (Some ''500 Internal Server Error'') False) ''widget'' ''1.0.0''
     = (\<lparr>Repo = ''widget'', CurrentVersion = ''v1.0.0'', LatestVersion = ''v1.3.0'',
          UpdateNeeded = True, SecurityPatch = False,
          ReleaseNotesList = [''Warning: Could not list releases from GitHub (acme/widget). Error: 500 Internal Server Error''],
          Status = cycleMark @ '' Update Recommended (Changelog unavailable)'',
          IsArchived = False\<rparr>,
        [CallNpmLatest ''widget'', CallGet ''acme'' ''widget'',
         CallListReleases ''acme'' ''widget'' 30])
   \<and> (\<exists>w. ReleaseNotesList (fst (checkNpmUpdate_part001
          (fixedEnv ''1.3.0'' ''git+https://github.com/acme/widget.git'')
          (fixedClient []
             (Some \<lparr>StatusCode = 500, RateLimitRemaining = ''4990'', RateLimitReset = ''1704067200''\<rparr>)
             (Some ''500 Internal Server Error'') False) ''widget'' ''1.0.0'')) = [w]
        \<and> HasPrefix w ''Warning:''
        \<and> \<not> HasPrefix w (crossMark @ '' GitHub Rate Limit Exceeded.''))
   \<and> snd (checkNpmUpdate_part001
        (fixedEnv ''1.3.0'' ''git+https://github.com/acme/widget.git'')
        (fixedClient []
           (Some \<lparr>StatusCode = 500, RateLimitRemaining = ''4990'', RateLimitReset = ''1704067200''\<rparr>)
           (Some ''500 Internal Server Error'') False) ''widget'' ''1.0.0'')
     = [CallNpmLatest ''widget'', CallGetLatestRelease ''acme'' ''widget'']"
proof -
  let ?e = "fixedEnv ''1.3.0'' ''git+https://github.com/acme/widget.git''"
  let ?n = "\<lparr>Version = ''1.3.0'', RepositoryURL = ''git+https://github.com/acme/widget.git''\<rparr>"
  let ?r = "\<lparr>StatusCode = 403, RateLimitRemaining = ''0'', RateLimitReset = ''1704067200''\<rparr>"
  let ?c = "limitedClient ''1704067200''"
  let ?s = "\<lparr>StatusCode = 500, RateLimitRemaining = ''4990'', RateLimitReset = ''1704067200''\<rparr>"
  let ?g = "fixedClient [] (Some ?s) (Some ''500 Internal Server Error'') False"
  have n: "fetchNpmInfo ?e ''widget'' = Inr ?n"
    by (simp add: fixedEnv_def)
  have u: "parseGitHubRepoURL (RepositoryURL ?n) = (''acme'', ''widget'')"
    by simp code_simp
  have c: "Compare (cleanVer ''1.0.0'') (withV (Version ?n)) < 0"
    by simp code_simp
  have v: "cleanVer ''1.0.0'' = ''v1.0.0''" "withV ''1.3.0'' = ''v1.3.0''"
    by code_simp+
  have ne: "''acme'' \<noteq> []" "''widget'' \<noteq> []"
    by simp_all
  have l: "ListReleases ?c ''acme'' ''widget'' 30 = ([], Some ?r, Some ''403 API rate limit exceeded'')"
    "GetLatestRelease ?c ''acme'' ''widget'' = (None, Some ?r, Some ''403 API rate limit exceeded'')"
    by (simp_all add: limitedClient_def fixedClient_def)
  have g: "ListReleases ?g ''acme'' ''widget'' 30 = ([], Some ?s, Some ''500 Internal Server Error'')"
    "GetLatestRelease ?g ''acme'' ''widget'' = (None, Some ?s, Some ''500 Internal Server Error'')"
    by (simp_all add: fixedClient_def)
  have k: "\<not> Contains ''500 Internal Server Error'' ''404 Not Found''"
    by code_simp
  have p: "ParseInt ''1704067200'' = (1704067200, None)"
    by code_simp
  have f: "FormatRFC1123 ?e 1704067200 = ''Mon, 01 Jan 2024 00:00:00 UTC''"
    unfolding fixedEnv_def by code_simp
  have a: "\<not> IsArchived (fst (checkNpmUpdate ?e ?c ''widget'' ''1.0.0''))"
    "Repo (fst (checkNpmUpdate ?e ?c ''widget'' ''1.0.0'')) = ''widget''"
    "CurrentVersion (fst (checkNpmUpdate ?e ?c ''widget'' ''1.0.0'')) = ''v1.0.0''"
    "LatestVersion (fst (checkNpmUpdate ?e ?c ''widget'' ''1.0.0'')) = ''v1.3.0''"
    by code_simp+
  have a2: "checkNpmUpdate ?e ?g ''widget'' ''1.0.0''
     = (\<lparr>Repo = ''widget'', CurrentVersion = ''v1.0.0'', LatestVersion = ''v1.3.0'',
          UpdateNeeded = True, SecurityPatch = False,
          ReleaseNotesList = [''Warning: Could not list releases from GitHub (acme/widget). Error: 500 Internal Server Error''],
          Status = cycleMark @ '' Update Recommended (Changelog unavailable)'',
          IsArchived = False\<rparr>,
        [CallNpmLatest ''widget'', CallGet ''acme'' ''widget'',
         CallListReleases ''acme'' ''widget'' 30])"
    by code_simp
  obtain info calls where r: "checkNpmUpdate ?e ?c ''widget'' ''1.0.0'' = (info, calls)"
    by (cases "checkNpmUpdate ?e ?c ''widget'' ''1.0.0''") auto
  obtain info1 calls1 where r1: "checkNpmUpdate_part001 ?e ?c ''widget'' ''1.0.0'' = (info1, calls1)"
    by (cases "checkNpmUpdate_part001 ?e ?c ''widget'' ''1.0.0''") auto
  obtain info2 calls2 where r2: "checkNpmUpdate ?e ?g ''widget'' ''1.0.0'' = (info2, calls2)"
    by (cases "checkNpmUpdate ?e ?g ''widget'' ''1.0.0''") auto
  obtain info3 calls3 where r3: "checkNpmUpdate_part001 ?e ?g ''widget'' ''1.0.0'' = (info3, calls3)"
    by (cases "checkNpmUpdate_part001 ?e ?g ''widget'' ''1.0.0''") auto
  have lim: "ReleaseNotesList info = [rateLimitMessage ''Mon, 01 Jan 2024 00:00:00 UTC'' ''acme'' ''widget'']
      \<and> UpdateNeeded info \<and> \<not> SecurityPatch info
      \<and> Status info = cycleMark @ '' Update Recommended (Changelog unavailable)''
      \<and> calls = [CallNpmLatest ''widget'', CallGet ''acme'' ''widget'',
                  CallListReleases ''acme'' ''widget'' 30]
      \<and> ReleaseNotesList info1 = [rateLimitMessage ''Mon, 01 Jan 2024 00:00:00 UTC'' ''acme'' ''widget'']
      \<and> calls1 = [CallNpmLatest ''widget'', CallGetLatestRelease ''acme'' ''widget'']"
    using l p f a r r1
      rate_limit_reported [OF n c u ne, of ?c "[]" ?r "Some ''403 API rate limit exceeded''"
        info calls _ _ ?c None ?r "Some ''403 API rate limit exceeded''" info1 calls1]
    by simp
  have gen: "(\<exists>w. ReleaseNotesList info3 = [w] \<and> HasPrefix w ''Warning:''
            \<and> \<not> HasPrefix w (crossMark @ '' GitHub Rate Limit Exceeded.''))
      \<and> calls3 = [CallNpmLatest ''widget'', CallGetLatestRelease ''acme'' ''widget'']"
    using g k r2 r3
      rate_limit_reported [OF n c u ne, of ?g "[]" _ _ info2 calls2 "Some ?s"
        "''500 Internal Server Error''" ?g None _ _ info3 calls3 "Some ?s"
        "''500 Internal Server Error''"]
    by simp
  from lim have "checkNpmUpdate ?e ?c ''widget'' ''1.0.0''
     = (\<lparr>Repo = ''widget'', CurrentVersion = ''v1.0.0'', LatestVersion = ''v1.3.0'',
          UpdateNeeded = True, SecurityPatch = False,
          ReleaseNotesList = [crossMark
            @ '' GitHub Rate Limit Exceeded. Try again after Mon, 01 Jan 2024 00:00:00 UTC. (Repo: acme/widget)''],
          Status = cycleMark @ '' Update Recommended (Changelog unavailable)'',
          IsArchived = False\<rparr>,
        [CallNpmLatest ''widget'', CallGet ''acme'' ''widget'',
         CallListReleases ''acme'' ''widget'' 30])"
    using a r by (cases info) (simp add: rateLimitMessage_def)
  moreover from lim have "ReleaseNotesList (fst (checkNpmUpdate_part001 ?e ?c ''widget'' ''1.0.0''))
     = [rateLimitMessage ''Mon, 01 Jan 2024 00:00:00 UTC'' ''acme'' ''widget'']"
    "snd (checkNpmUpdate_part001 ?e ?c ''widget'' ''1.0.0'')
     = [CallNpmLatest ''widget'', CallGetLatestRelease ''acme'' ''widget'']"
    using r1 by simp_all
  moreover from gen have "\<exists>w. ReleaseNotesList (fst (checkNpmUpdate_part001 ?e ?g ''widget'' ''1.0.0'')) = [w]
        \<and> HasPrefix w ''Warning:''
        \<and> \<not> HasPrefix w (crossMark @ '' GitHub Rate Limit Exceeded.'')"
    "snd (checkNpmUpdate_part001 ?e ?g ''widget'' ''1.0.0'')
     = [CallNpmLatest ''widget'', CallGetLatestRelease ''acme'' ''widget'']"
    using r3 by simp_all
  ultimately show ?thesis
    using a2 by (intro conjI)
qed

text \<open>
  Claim C5 as stated fails: the header \<open>1704067200\<close> (the instant
  2024-01-01T00:00:00Z) is reported as \<open>Mon, 01 Jan 2024 00:00:00 UTC\<close>, so the note
  holds neither the text of the header nor that timestamp; and a header that carries the
  text \<open>2024-01-01T00:00:00Z\<close> itself is reported by the newer check as the year 1970.
  Nor is every other failure told apart from a rate limit: both checks look for the
  character \<open>0\<close> anywhere in the remaining-quota header, so a refusal with status 403
  and 4990 requests left gets the note of a rate limit.
\<close>

theorem reset_time_not_verbatim_counterexample:
  "ReleaseNotesList (fst (checkNpmUpdate
        (fixedEnv ''1.3.0'' ''git+https://github.com/acme/widget.git'')
        (limitedClient ''1704067200'') ''widget'' ''1.0.0''))
     = [crossMark
        @ '' GitHub Rate Limit Exceeded. Try again after Mon, 01 Jan 2024 00:00:00 UTC. (Repo: acme/widget)'']
   \<and> \<not> Contains (crossMark
        @ '' GitHub Rate Limit Exceeded. Try again after Mon, 01 Jan 2024 00:00:00 UTC. (Repo: acme/widget)'')
        ''1704067200''
   \<and> \<not> Contains (crossMark
        @ '' GitHub Rate Limit Exceeded. Try again after Mon, 01 Jan 2024 00:00:00 UTC. (Repo: acme/widget)'')
        ''2024-01-01T00:00:00Z''
   \<and> ReleaseNotesList (fst (checkNpmUpdate
        (fixedEnv ''1.3.0'' ''git+https://github.com/acme/widget.git'')
        (limitedClient ''2024-01-01T00:00:00Z'') ''widget'' ''1.0.0''))
     = [crossMark
        @ '' GitHub Rate Limit Exceeded. Try again after Thu, 01 Jan 1970 00:00:00 UTC. (Repo: acme/widget)'']
   \<and> ReleaseNotesList (fst (checkNpmUpdate
        (fixedEnv ''1.3.0'' ''git+https://github.com/acme/widget.git'')
        (fixedClient []
           (Some \<lparr>StatusCode = 403, RateLimitRemaining = ''4990'', RateLimitReset = ''1704067200''\<rparr>)
           (Some ''403 Resource not accessible by integration'') False) ''widget'' ''1.0.0''))
     = [crossMark
        @ '' GitHub Rate Limit Exceeded. Try again after Mon, 01 Jan 2024 00:00:00 UTC. (Repo: acme/widget)'']
   \<and> ReleaseNotesList (fst (checkNpmUpdate_part001
        (fixedEnv ''1.3.0'' ''git+https://github.com/acme/widget.git'')
        (fixedClient []
           (Some \<lparr>StatusCode = 403, RateLimitRemaining = ''4990'', RateLimitReset = ''1704067200''\<rparr>)
           (Some ''403 Resource not accessible by integration'') False) ''widget'' ''1.0.0''))
     = [crossMark
        @ '' GitHub Rate Limit Exceeded. Try again after Mon, 01 Jan 2024 00:00:00 UTC. (Repo: acme/widget)'']"
  by code_simp


section \<open>The repository URL\<close>

lemma Split_from_first:
  "k \<notin> set a \<Longrightarrow> Split_from [k] acc (a @ k # b) = (rev acc @ a) # Split_from [k] [] b"
  by (induction a arbitrary: acc) auto

lemma hd_Split_from:
  "hd (Split_from [k] acc s) = rev acc @ takeWhile (\<lambda>c. c \<noteq> k) s"
  by (induction s arbitrary: acc) auto

lemma Split_none: "k \<notin> set s \<Longrightarrow> Split s [k] = [s]"
  by (simp add: Split_def Split_from_none)

lemma Split_first: "k \<notin> set a \<Longrightarrow> Split (a @ k # b) [k] = a # Split b [k]"
  by (simp add: Split_def Split_from_first)

lemma hd_Split_fragment:
  "CHR ''#'' \<notin> set b \<Longrightarrow> hd (Split (b @ (case frag of None \<Rightarrow> [] | Some f \<Rightarrow> ''#'' @ f)) ''#'') = b"
proof -
  assume "CHR ''#'' \<notin> set b"
  then have "\<forall>x\<in>set b. x \<noteq> CHR ''#''"
    by auto
  then show ?thesis
    by (cases frag) (simp_all add: Split_def hd_Split_from takeWhile_append2)
qed

lemma TrimPrefix_same: "TrimPrefix (p @ s) p = s"
  by (simp add: TrimPrefix_def)

lemma TrimPrefix_other: "\<not> prefix q s \<Longrightarrow> TrimPrefix s q = s"
  by (simp add: TrimPrefix_def)

lemma prefix_before_sep:
  assumes "c \<notin> set q" and "prefix q (h @ c # rest)"
  shows "prefix q h"
proof -
  from assms(2) consider "prefix q h" | us where "q = h @ us" "prefix us (c # rest)"
    by (auto simp: prefix_append)
  then show ?thesis
  proof cases
    case 1
    then show ?thesis .
  next
    case 2
    then show ?thesis
      using assms(1) by (cases us) auto
  qed
qed

lemma no_scheme_in_host:
  assumes "CHR '':'' \<notin> set h" and "CHR ''@'' \<notin> set h"
  shows "\<not> prefix ''git+https://'' (h @ CHR ''/'' # rest)"
    "\<not> prefix ''https://'' (h @ CHR ''/'' # rest)"
    "\<not> prefix ''http://'' (h @ CHR ''/'' # rest)"
    "\<not> prefix ''git@'' (h @ CHR ''/'' # rest)"
proof -
  have a: "\<not> prefix q (h @ CHR ''/'' # rest)"
    if "CHR ''/'' \<notin> set q" "CHR '':'' \<in> set q \<or> CHR ''@'' \<in> set q" for q
  proof
    assume "prefix q (h @ CHR ''/'' # rest)"
    then have "prefix q h"
      using that(1) by (intro prefix_before_sep [of "CHR ''/''" q h rest])
    then have "set q \<subseteq> set h"
      by (rule set_mono_prefix)
    with that(2) assms show False by auto
  qed
  have b: "\<not> prefix (q @ ''//'') s" if "\<not> prefix q s" for q s :: string
    using that by (auto simp: prefix_def)
  show "\<not> prefix ''git+https://'' (h @ CHR ''/'' # rest)"
    using b [OF a [of "''git+https:''"]] by simp
  show "\<not> prefix ''https://'' (h @ CHR ''/'' # rest)"
    using b [OF a [of "''https:''"]] by simp
  show "\<not> prefix ''http://'' (h @ CHR ''/'' # rest)"
    using b [OF a [of "''http:''"]] by simp
  show "\<not> prefix ''git@'' (h @ CHR ''/'' # rest)"
    using a [of "''git@''"] by simp
qed

lemma TrimSuffix_after_sep:
  assumes "c \<notin> set q"
  shows "TrimSuffix (a @ c # p) q = a @ c # TrimSuffix p q"
proof -
  have s: "suffix q (a @ c # p) = suffix q p"
  proof
    assume "suffix q (a @ c # p)"
    then have "suffix q ((a @ [c]) @ p)" by simp
    then consider "suffix q p" | xs where "q = xs @ p" "suffix xs (a @ [c])"
      unfolding suffix_append by blast
    then show "suffix q p"
    proof cases
      case 1
      then show ?thesis .
    next
      case 2
      then show ?thesis
        using assms by (cases xs rule: rev_cases) (auto simp: suffix_def)
    qed
  next
    assume "suffix q p"
    then show "suffix q (a @ c # p)"
      by (metis suffix_appendI suffix_ConsI)
  qed
  show ?thesis
  proof (cases "suffix q p")
    case True
    then have "length q \<le> length p"
      by (rule suffix_length_le)
    then show ?thesis
      using True s by (simp add: TrimSuffix_def Suc_diff_le)
  next
    case False
    then show ?thesis
      using s by (simp add: TrimSuffix_def)
  qed
qed

lemma set_TrimSuffix: "set (TrimSuffix p q) \<subseteq> set p"
  by (auto simp: TrimSuffix_def dest: in_set_takeD)

lemma parse_after_scheme:
  assumes h: "host \<noteq> []" "set host \<inter> set ''/:#@'' = {}"
    and p: "set path \<inter> set '':#'' = {}"
    and u5: "TrimPrefix (TrimPrefix (TrimPrefix (TrimPrefix (TrimPrefix url ''git://'')
               ''git+https://'') ''https://'') ''http://'') ''git@''
             = host @ CHR ''/'' # path @ (case frag of None \<Rightarrow> [] | Some f \<Rightarrow> ''#'' @ f)"
  shows "parseGitHubRepoURL url
           = (let segs = filter (\<lambda>p. p \<noteq> []) (Split (TrimSuffix path ''.git'') ''/'') in
              if Contains host ''github.com'' \<or> Contains host ''gitlab.com''
              then (case segs of owner # repo # rest \<Rightarrow> (owner, repo) | _ \<Rightarrow> ([], []))
              else (case segs of owner # rest \<Rightarrow> (host, owner) | [] \<Rightarrow> ([], [])))"
proof -
  define path' where "path' = TrimSuffix path ''.git''"
  define segs where "segs = filter (\<lambda>p. p \<noteq> []) (Split path' ''/'')"
  have hs: "CHR ''/'' \<notin> set host" "CHR '':'' \<notin> set host" "CHR ''#'' \<notin> set host"
    and ps: "CHR '':'' \<notin> set path" "CHR ''#'' \<notin> set path"
    using h p by auto
  have ps': "CHR '':'' \<notin> set path'"
    using ps set_TrimSuffix [of path "''.git''"] by (auto simp: path'_def)
  have u6: "hd (Split (host @ CHR ''/'' # path @ (case frag of None \<Rightarrow> [] | Some f \<Rightarrow> ''#'' @ f))
              ''#'') = host @ CHR ''/'' # path"
    using hd_Split_fragment [of "host @ CHR ''/'' # path" frag] hs ps by simp
  have u7: "TrimSuffix (host @ CHR ''/'' # path) ''.git'' = host @ CHR ''/'' # path'"
    unfolding path'_def by (rule TrimSuffix_after_sep) simp
  have u8: "Split (host @ CHR ''/'' # path') '':'' = [host @ CHR ''/'' # path']"
    using hs ps' by (intro Split_none) simp
  have u9: "filter (\<lambda>p. p \<noteq> []) (Split (host @ CHR ''/'' # path') ''/'') = host # segs"
    using hs(1) h(1) by (simp add: Split_first segs_def)
  have "parseGitHubRepoURL url =
      (if 2 \<le> length (host # segs)
            \<and> (Contains ((host # segs) ! 0) ''github.com'' \<or> Contains ((host # segs) ! 0) ''gitlab.com'')
       then (if 3 \<le> length (host # segs) then ((host # segs) ! 1, (host # segs) ! 2) else ([], []))
       else if 2 \<le> length (host # segs) then ((host # segs) ! 0, (host # segs) ! 1)
       else ([], []))"
    by (simp only: parseGitHubRepoURL_def Let_def u5 u6 u7 u8 u9 list.case)
  also have "\<dots> = (if Contains host ''github.com'' \<or> Contains host ''gitlab.com''
              then (case segs of owner # repo # rest \<Rightarrow> (owner, repo) | _ \<Rightarrow> ([], []))
              else (case segs of owner # rest \<Rightarrow> (host, owner) | [] \<Rightarrow> ([], [])))"
    by (cases segs; cases "tl segs") auto
  finally show ?thesis
    by (simp add: Let_def segs_def path'_def)
qed

lemma parse_scheme_url:
  assumes sch: "scheme \<in> set [''git://'', ''git+https://'', ''https://'', ''http://'']"
    and h: "host \<noteq> []" "set host \<inter> set ''/:#@'' = {}"
    and p: "set path \<inter> set '':#'' = {}"
  shows "parseGitHubRepoURL
           (scheme @ host @ ''/'' @ path @ (case frag of None \<Rightarrow> [] | Some f \<Rightarrow> ''#'' @ f))
           = (let segs = filter (\<lambda>p. p \<noteq> []) (Split (TrimSuffix path ''.git'') ''/'') in
              if Contains host ''github.com'' \<or> Contains host ''gitlab.com''
              then (case segs of owner # repo # rest \<Rightarrow> (owner, repo) | _ \<Rightarrow> ([], []))
              else (case segs of owner # rest \<Rightarrow> (host, owner) | [] \<Rightarrow> ([], [])))"
proof -
  define rest where "rest = path @ (case frag of None \<Rightarrow> [] | Some f \<Rightarrow> ''#'' @ f)"
  define R where "R = host @ CHR ''/'' # rest"
  have hs: "CHR '':'' \<notin> set host" "CHR ''@'' \<notin> set host"
    using h by auto
  note ns = no_scheme_in_host [OF hs, of rest, folded R_def]
  have t: "TrimPrefix R ''git+https://'' = R" "TrimPrefix R ''https://'' = R"
    "TrimPrefix R ''http://'' = R" "TrimPrefix R ''git@'' = R"
    using ns by (simp_all add: TrimPrefix_other)
  have "TrimPrefix (TrimPrefix (TrimPrefix (TrimPrefix (TrimPrefix (scheme @ R) ''git://'')
               ''git+https://'') ''https://'') ''http://'') ''git@'' = R"
  proof -
    consider "scheme = ''git://''" | "scheme = ''git+https://''" | "scheme = ''https://''"
      | "scheme = ''http://''"
      using sch by auto
    then show ?thesis
    proof cases
      case 1
      have "TrimPrefix (scheme @ R) ''git://'' = R"
        unfolding 1 by (rule TrimPrefix_same)
      then show ?thesis by (simp only: t)
    next
      case 2
      have "TrimPrefix (scheme @ R) ''git://'' = scheme @ R"
        unfolding 2 by (simp add: TrimPrefix_def)
      moreover have "TrimPrefix (scheme @ R) ''git+https://'' = R"
        unfolding 2 by (rule TrimPrefix_same)
      ultimately show ?thesis by (simp only: t)
    next
      case 3
      have "TrimPrefix (scheme @ R) ''git://'' = scheme @ R"
        "TrimPrefix (scheme @ R) ''git+https://'' = scheme @ R"
        unfolding 3 by (simp_all add: TrimPrefix_def)
      moreover have "TrimPrefix (scheme @ R) ''https://'' = R"
        unfolding 3 by (rule TrimPrefix_same)
      ultimately show ?thesis by (simp only: t)
    next
      case 4
      have "TrimPrefix (scheme @ R) ''git://'' = scheme @ R"
        "TrimPrefix (scheme @ R) ''git+https://'' = scheme @ R"
        "TrimPrefix (scheme @ R) ''https://'' = scheme @ R"
        unfolding 4 by (simp_all add: TrimPrefix_def)
      moreover have "TrimPrefix (scheme @ R) ''http://'' = R"
        unfolding 4 by (rule TrimPrefix_same)
      ultimately show ?thesis by (simp only: t)
    qed
  qed
  then have "TrimPrefix (TrimPrefix (TrimPrefix (TrimPrefix (TrimPrefix
       (scheme @ host @ ''/'' @ path @ (case frag of None \<Rightarrow> [] | Some f \<Rightarrow> ''#'' @ f))
         ''git://'') ''git+https://'') ''https://'') ''http://'') ''git@''
       = host @ CHR ''/'' # path @ (case frag of None \<Rightarrow> [] | Some f \<Rightarrow> ''#'' @ f)"
    by (simp add: R_def rest_def)
  from parse_after_scheme [OF h p this] show ?thesis .
qed

lemma parse_ssh_url:
  assumes h: "set host \<inter> set '':#'' = {}" and p: "set path \<inter> set '':#'' = {}"
  shows "parseGitHubRepoURL
           (''git@'' @ host @ '':'' @ path @ (case frag of None \<Rightarrow> [] | Some f \<Rightarrow> ''#'' @ f))
           = (case filter (\<lambda>p. p \<noteq> []) (Split (TrimSuffix path ''.git'') ''/'') of
                owner # repo # rest \<Rightarrow>
                  if Contains owner ''github.com'' \<or> Contains owner ''gitlab.com''
                  then (case rest of third # others \<Rightarrow> (repo, third) | [] \<Rightarrow> ([], []))
                  else (owner, repo)
              | _ \<Rightarrow> ([], []))"
proof -
  define fragment where "fragment = (case frag of None \<Rightarrow> [] | Some f \<Rightarrow> ''#'' @ f)"
  define R where "R = host @ CHR '':'' # path @ fragment"
  define url where "url = ''git@'' @ R"
  define path' where "path' = TrimSuffix path ''.git''"
  define segs where "segs = filter (\<lambda>p. p \<noteq> []) (Split path' ''/'')"
  have hs: "CHR '':'' \<notin> set host" "CHR ''#'' \<notin> set host"
    and ps: "CHR '':'' \<notin> set path" "CHR ''#'' \<notin> set path"
    using h p by auto
  have ps': "CHR '':'' \<notin> set path'"
    using ps set_TrimSuffix [of path "''.git''"] by (auto simp: path'_def)
  have t: "TrimPrefix url ''git://'' = url" "TrimPrefix url ''git+https://'' = url"
    "TrimPrefix url ''https://'' = url" "TrimPrefix url ''http://'' = url"
    unfolding url_def by (simp_all add: TrimPrefix_def)
  have u5: "TrimPrefix url ''git@'' = R"
    unfolding url_def by (rule TrimPrefix_same)
  have u6: "hd (Split R ''#'') = host @ CHR '':'' # path"
    unfolding R_def fragment_def
    using hd_Split_fragment [of "host @ CHR '':'' # path" frag] hs ps by simp
  have u7: "TrimSuffix (host @ CHR '':'' # path) ''.git'' = host @ CHR '':'' # path'"
    unfolding path'_def by (rule TrimSuffix_after_sep) simp
  have u8: "Split (host @ CHR '':'' # path') '':'' = [host, path']"
    using hs ps' by (simp add: Split_first Split_none)
  have "parseGitHubRepoURL url =
      (if 2 \<le> length segs
            \<and> (Contains (segs ! 0) ''github.com'' \<or> Contains (segs ! 0) ''gitlab.com'')
       then (if 3 \<le> length segs then (segs ! 1, segs ! 2) else ([], []))
       else if 2 \<le> length segs then (segs ! 0, segs ! 1)
       else ([], []))"
    by (simp only: parseGitHubRepoURL_def Let_def t u5 u6 u7 u8 list.case segs_def)
  also have "\<dots> = (case segs of
                owner # repo # rest \<Rightarrow>
                  if Contains owner ''github.com'' \<or> Contains owner ''gitlab.com''
                  then (case rest of third # others \<Rightarrow> (repo, third) | [] \<Rightarrow> ([], []))
                  else (owner, repo)
              | _ \<Rightarrow> ([], []))"
    by (cases segs; cases "tl segs"; cases "tl (tl segs)") auto
  finally show ?thesis
    by (simp add: url_def R_def fragment_def segs_def path'_def)
qed

text \<open>
  Claim C7, as the code has it. For a URL \<open>scheme host / path\<close> with one of the four
  schemes, a host without \<open>/ : # @\<close> and a path without \<open>: #\<close>, optionally followed
  by \<open>#fragment\<close>, the parser drops the fragment and one \<open>.git\<close> at the end and cuts
  the path at the slashes. When the host contains \<open>github.com\<close> or \<open>gitlab.com\<close> it
  returns the first two non-empty pieces of the path, and two empty strings when there
  are fewer than two; otherwise it returns the host and the first non-empty piece, the
  first two non-empty pieces of what is left of the URL. For the form
  \<open>git@host:path\<close> it returns the first two non-empty pieces of the path (the second and
  third when the first contains \<open>github.com\<close> or \<open>gitlab.com\<close>).
\<close>

theorem parseGitHubRepoURL_forms:
  "(scheme \<in> set [''git://'', ''git+https://'', ''https://'', ''http://'']
      \<and> host \<noteq> [] \<and> set host \<inter> set ''/:#@'' = {} \<and> set path \<inter> set '':#'' = {}
    \<longrightarrow> parseGitHubRepoURL
          (scheme @ host @ ''/'' @ path @ (case frag of None \<Rightarrow> [] | Some f \<Rightarrow> ''#'' @ f))
        = (let segs = filter (\<lambda>p. p \<noteq> []) (Split (TrimSuffix path ''.git'') ''/'') in
           if Contains host ''github.com'' \<or> Contains host ''gitlab.com''
           then (case segs of owner # repo # rest \<Rightarrow> (owner, repo) | _ \<Rightarrow> ([], []))
           else (case segs of owner # rest \<Rightarrow> (host, owner) | [] \<Rightarrow> ([], []))))
   \<and> (set host \<inter> set '':#'' = {} \<and> set path \<inter> set '':#'' = {}
    \<longrightarrow> parseGitHubRepoURL
          (''git@'' @ host @ '':'' @ path @ (case frag of None \<Rightarrow> [] | Some f \<Rightarrow> ''#'' @ f))
        = (case filter (\<lambda>p. p \<noteq> []) (Split (TrimSuffix path ''.git'') ''/'') of
             owner # repo # rest \<Rightarrow>
               if Contains owner ''github.com'' \<or> Contains owner ''gitlab.com''
               then (case rest of third # others \<Rightarrow> (repo, third) | [] \<Rightarrow> ([], []))
               else (owner, repo)
           | _ \<Rightarrow> ([], [])))
   \<and> parseGitHubRepoURL ''git+https://github.com/acme/widget.git'' = (''acme'', ''widget'')"
proof -
  have "parseGitHubRepoURL ''git+https://github.com/acme/widget.git'' = (''acme'', ''widget'')"
    by code_simp
  then show ?thesis
    using parse_scheme_url [of scheme host path frag] parse_ssh_url [of host path frag]
    by blast
qed

theorem parseGitHubRepoURL_forms_witness:
  "parseGitHubRepoURL ''git+https://github.com/acme/widget.git#v1.0'' = (''acme'', ''widget'')
   \<and> parseGitHubRepoURL ''https://example.org/acme/widget'' = (''example.org'', ''acme'')
   \<and> parseGitHubRepoURL ''http://github.com/acme'' = ([], [])
   \<and> parseGitHubRepoURL ''git@github.com:acme/widget.git'' = (''acme'', ''widget'')"
proof -
  have s: "''git+https://'' \<in> set [''git://'', ''git+https://'', ''https://'', ''http://'']"
    "''https://'' \<in> set [''git://'', ''git+https://'', ''https://'', ''http://'']"
    "''http://'' \<in> set [''git://'', ''git+https://'', ''https://'', ''http://'']"
    by simp_all
  have h: "''github.com'' \<noteq> []" "set ''github.com'' \<inter> set ''/:#@'' = {}"
    "set ''example.org'' \<inter> set ''/:#@'' = {}" "set ''github.com'' \<inter> set '':#'' = {}"
    "set ''acme/widget.git'' \<inter> set '':#'' = {}" "set ''acme/widget'' \<inter> set '':#'' = {}"
    "set ''acme'' \<inter> set '':#'' = {}"
    by simp_all
  have c: "Contains ''github.com'' ''github.com''"
    "\<not> Contains ''example.org'' ''github.com''" "\<not> Contains ''example.org'' ''gitlab.com''"
    "\<not> Contains ''acme'' ''github.com''" "\<not> Contains ''acme'' ''gitlab.com''"
    by code_simp+
  have f: "filter (\<lambda>p. p \<noteq> []) (Split (TrimSuffix ''acme/widget.git'' ''.git'') ''/'')
             = [''acme'', ''widget'']"
    "filter (\<lambda>p. p \<noteq> []) (Split (TrimSuffix ''acme/widget'' ''.git'') ''/'')
             = [''acme'', ''widget'']"
    "filter (\<lambda>p. p \<noteq> []) (Split (TrimSuffix ''acme'' ''.git'') ''/'') = [''acme'']"
    by code_simp+
  show ?thesis
    using s h c f
      parseGitHubRepoURL_forms [of "''git+https://''" "''github.com''" "''acme/widget.git''"
        "Some ''v1.0''"]
      parseGitHubRepoURL_forms [of "''https://''" "''example.org''" "''acme/widget''" None]
      parseGitHubRepoURL_forms [of "''http://''" "''github.com''" "''acme''" None]
      parseGitHubRepoURL_forms [of "''git://''" "''github.com''" "''acme/widget.git''" None]
    by simp
qed

text \<open>
  Claim C7 as stated covers every URL of the schemes. A URL with a port has a colon
  in its host part: the parser keeps what stands between the first and the second
  colon, here \<open>443/acme/widget\<close>, and returns the port as the owner.
\<close>

theorem port_taken_for_owner_counterexample:
  "parseGitHubRepoURL ''https://github.com:443/acme/widget'' = (''443'', ''acme'')"
  by code_simp

end
